theory Spec2Isabelle
  imports Main "HOL-Library.Word"
begin

section \<open>Python values, exceptions and the outside world\<close>

text \<open>
  The program is a Python class, \<open>GoogleBooksAssistant\<close> of \<open>src/main.py\<close>, with three
  methods: \<open>search_books\<close>, \<open>analyze_books\<close> and \<open>recommend_similar_books\<close>. It handles
  decoded JSON, which is dynamically typed, so the values of the model are a datatype of
  Python values: whatever \<open>response.json()\<close> can return. A \<open>dict\<close> is an association
  list in insertion order (its keys are distinct; JSON keys are strings). A string is an
  Isabelle string whose characters stand for code points below 256. A float is only ever
  carried around, never computed with: it is its 64-bit pattern.
\<close>

datatype pyval =
    PNone
  | PBool bool
  | PInt int
  | PFloat "64 word"
  | PStr string
  | PList "pyval list"
  | PDict "(string \<times> pyval) list"

type_synonym pydict = "(string \<times> pyval) list"

text \<open>
  Exceptions, as far as the \<open>except\<close> clauses of the program tell them apart.
  \<open>RequestException\<close> stands for every instance of \<open>requests.exceptions.RequestException\<close>
  (its subclasses \<open>ConnectionError\<close>, \<open>Timeout\<close>, \<open>HTTPError\<close> included) with its message;
  \<open>AttributeError\<close>, \<open>TypeError\<close>, \<open>KeyError\<close> (with the key) and \<open>IndexError\<close> are the ones
  the interpreter raises in the program's own code; \<open>OtherException\<close> is any other
  instance of \<open>Exception\<close> that a library call raises.
\<close>

datatype py_exception =
    RequestException string
  | AttributeError
  | TypeError
  | KeyError string
  | IndexError
  | OtherException string

text \<open>\<open>isinstance(e, requests.exceptions.RequestException)\<close>, the test of line 65.\<close>

fun is_RequestException :: "py_exception \<Rightarrow> bool" where
  "is_RequestException (RequestException _) = True"
| "is_RequestException _ = False"

text \<open>\<open>isinstance(e, Exception)\<close>, the test of lines 112 and 150: every class above
  derives from \<open>Exception\<close>.\<close>

fun is_Exception :: "py_exception \<Rightarrow> bool" where
  "is_Exception _ = True"

text \<open>The query parameters of line 40 and the object that \<open>requests.get\<close> returns.\<close>

record params =
  param_q :: string
  param_key :: string
  param_maxResults :: int

text \<open>
  Of a \<open>requests.Response\<close> the program uses \<open>raise_for_status()\<close> and \<open>json()\<close>.
  \<open>json_result\<close> is what \<open>json()\<close> returns or raises for this body; \<open>http_error_msg\<close> is
  the message \<open>raise_for_status\<close> gives its \<open>HTTPError\<close>.
\<close>

record response =
  status_code :: int
  http_error_msg :: string
  json_result :: "py_exception + pyval"

text \<open>
  The state the program changes: the records its logger has written (the fixed prefix
  of the message and the exception whose \<open>str\<close> follows it), and the calls it has made to
  the two services, in order.
\<close>

record world =
  error_log :: "(string \<times> py_exception) list"
  http_calls :: "(string \<times> params) list"
  generate_calls :: "string list"

text \<open>
  What lies outside the repository. \<open>requests_get n url p\<close> is the outcome of the
  \<open>n\<close>-th call of \<open>requests.get\<close> (counted from 0) with that URL and those parameters,
  \<open>cohere_generate n prompt\<close> the outcome of the \<open>n\<close>-th call of the Cohere client's
  \<open>generate\<close>: an exception or the texts of \<open>response.generations\<close>. The other arguments of
  \<open>generate\<close> are constants (lines 101 to 107). \<open>py_str\<close> is Python's \<open>str()\<close> on the values
  for which it is not written out below (numbers, lists, dicts).
\<close>

record env =
  requests_get :: "nat \<Rightarrow> string \<Rightarrow> params \<Rightarrow> py_exception + response"
  cohere_generate :: "nat \<Rightarrow> string \<Rightarrow> py_exception + string list"
  py_str :: "pyval \<Rightarrow> string"

text \<open>The fields \<open>__init__\<close> sets (lines 20 to 22).\<close>

record assistant =
  cohere_api_key :: string
  google_books_api_key :: string
  google_books_base_url :: string

definition init :: "string \<Rightarrow> string \<Rightarrow> assistant" where
  "init cohere_key books_key =
     \<lparr>cohere_api_key = cohere_key,
      google_books_api_key = books_key,
      google_books_base_url = ''https://www.googleapis.com/books/v1/volumes''\<rparr>"

section \<open>Operations of the interpreter\<close>

text \<open>\<open>d.get(k, default)\<close> and \<open>d[k]\<close> on a dict.\<close>

definition dict_get :: "pydict \<Rightarrow> string \<Rightarrow> pyval \<Rightarrow> pyval" where
  "dict_get d k dflt = (case map_of d k of None \<Rightarrow> dflt | Some v \<Rightarrow> v)"

definition dict_item :: "pydict \<Rightarrow> string \<Rightarrow> py_exception + pyval" where
  "dict_item d k = (case map_of d k of None \<Rightarrow> Inl (KeyError k) | Some v \<Rightarrow> Inr v)"

text \<open>\<open>x.get(k, default)\<close> on any value: only a dict has the attribute \<open>get\<close>.\<close>

fun py_get :: "pyval \<Rightarrow> string \<Rightarrow> pyval \<Rightarrow> py_exception + pyval" where
  "py_get (PDict d) k dflt = Inr (dict_get d k dflt)"
| "py_get _ k dflt = Inl AttributeError"

text \<open>
  The elements a \<open>for\<close> loop (or \<open>str.join\<close>) draws from a value: those of a list, the
  keys of a dict, the one-character strings of a string; nothing else is iterable.
\<close>

fun py_iter :: "pyval \<Rightarrow> py_exception + pyval list" where
  "py_iter (PList xs) = Inr xs"
| "py_iter (PDict d) = Inr (map (\<lambda>kv. PStr (fst kv)) d)"
| "py_iter (PStr s) = Inr (map (\<lambda>c. PStr [c]) s)"
| "py_iter _ = Inl TypeError"

text \<open>\<open>Response.raise_for_status()\<close>: an \<open>HTTPError\<close> for a status from 400 to 599.\<close>

definition raise_for_status :: "response \<Rightarrow> py_exception + unit" where
  "raise_for_status r =
     (if 400 \<le> status_code r \<and> status_code r < 600
      then Inl (RequestException (http_error_msg r)) else Inr ())"

section \<open>\<open>search_books\<close>\<close>

text \<open>Lines 53 to 61: the dict built from one element of \<open>items\<close>.\<close>

definition book_of_item :: "pyval \<Rightarrow> py_exception + pydict" where
  "book_of_item item =
     (case py_get item ''volumeInfo'' (PDict []) of
        Inl e \<Rightarrow> Inl e
      | Inr volume_info \<Rightarrow>
          (case volume_info of
             PDict vi \<Rightarrow>
               Inr [(''title'', dict_get vi ''title'' PNone),
                    (''authors'', dict_get vi ''authors'' (PList [])),
                    (''description'', dict_get vi ''description'' (PStr [])),
                    (''categories'', dict_get vi ''categories'' (PList [])),
                    (''preview_link'', dict_get vi ''previewLink'' PNone),
                    (''page_count'', dict_get vi ''pageCount'' PNone)]
           | _ \<Rightarrow> Inl AttributeError))"

text \<open>The keys of the dict of lines 54 to 61, in order.\<close>

definition book_keys :: "string list" where
  "book_keys = [''title'', ''authors'', ''description'', ''categories'', ''preview_link'', ''page_count'']"

text \<open>The loop of lines 52 to 61, \<open>books\<close> being the list built so far.\<close>

fun books_loop :: "pyval list \<Rightarrow> pydict list \<Rightarrow> py_exception + pydict list" where
  "books_loop [] books = Inr books"
| "books_loop (item # items) books =
     (case book_of_item item of
        Inl e \<Rightarrow> Inl e
      | Inr book \<Rightarrow> books_loop items (books @ [book]))"

text \<open>Lines 47 to 63: what happens to the response once \<open>requests.get\<close> has returned.\<close>

definition books_of_response :: "response \<Rightarrow> py_exception + pydict list" where
  "books_of_response r =
     (case raise_for_status r of
        Inl e \<Rightarrow> Inl e
      | Inr _ \<Rightarrow>
          (case json_result r of
             Inl e \<Rightarrow> Inl e
           | Inr results \<Rightarrow>
               (case py_get results ''items'' (PList []) of
                  Inl e \<Rightarrow> Inl e
                | Inr its \<Rightarrow>
                    (case py_iter its of
                       Inl e \<Rightarrow> Inl e
                     | Inr items \<Rightarrow> books_loop items []))))"

text \<open>The body of the \<open>try\<close> (lines 40 to 63).\<close>

definition search_try ::
  "env \<Rightarrow> assistant \<Rightarrow> string \<Rightarrow> int \<Rightarrow> world \<Rightarrow> (py_exception + pydict list) \<times> world" where
  "search_try E self query max_results w =
     (let p = \<lparr>param_q = query, param_key = google_books_api_key self,
                param_maxResults = max_results\<rparr>;
          w1 = w\<lparr>http_calls := http_calls w @ [(google_books_base_url self, p)]\<rparr>
      in (case requests_get E (length (http_calls w)) (google_books_base_url self) p of
            Inl e \<Rightarrow> (Inl e, w1)
          | Inr r \<Rightarrow> (books_of_response r, w1)))"

definition search_error_prefix :: string where
  "search_error_prefix = ''Error searching Google Books API: ''"

definition log_error :: "string \<Rightarrow> py_exception \<Rightarrow> world \<Rightarrow> world" where
  "log_error prefix e w = w\<lparr>error_log := error_log w @ [(prefix, e)]\<rparr>"

text \<open>\<open>search_books\<close> (lines 39 to 67): the \<open>try\<close> and its one \<open>except\<close> clause.\<close>

definition search_books ::
  "env \<Rightarrow> assistant \<Rightarrow> string \<Rightarrow> int \<Rightarrow> world \<Rightarrow> (py_exception + pydict list) \<times> world" where
  "search_books E self query max_results w =
     (case search_try E self query max_results w of
        (Inr books, w1) \<Rightarrow> (Inr books, w1)
      | (Inl e, w1) \<Rightarrow>
          (if is_RequestException e
           then (Inr [], log_error search_error_prefix e w1)
           else (Inl e, w1)))"

section \<open>\<open>analyze_books\<close>\<close>

text \<open>
  A replacement field \<open>{v}\<close> of an f-string: a string as it is, \<open>None\<close> and the booleans
  by their names, any other value by \<open>str()\<close>.
\<close>

fun format_value :: "env \<Rightarrow> pyval \<Rightarrow> string" where
  "format_value E (PStr s) = s"
| "format_value E PNone = ''None''"
| "format_value E (PBool b) = (if b then ''True'' else ''False'')"
| "format_value E v = py_str E v"

text \<open>\<open>sep.join(v)\<close>: \<open>v\<close> must be iterable and each of its elements a string.\<close>

fun join_strs :: "string \<Rightarrow> string list \<Rightarrow> string" where
  "join_strs sep [] = []"
| "join_strs sep [s] = s"
| "join_strs sep (s # t # ss) = s @ sep @ join_strs sep (t # ss)"

fun str_items :: "pyval list \<Rightarrow> py_exception + string list" where
  "str_items [] = Inr []"
| "str_items (PStr s # vs) =
     (case str_items vs of Inl e \<Rightarrow> Inl e | Inr ss \<Rightarrow> Inr (s # ss))"
| "str_items (_ # vs) = Inl TypeError"

definition py_join :: "string \<Rightarrow> pyval \<Rightarrow> py_exception + string" where
  "py_join sep v =
     (case py_iter v of
        Inl e \<Rightarrow> Inl e
      | Inr xs \<Rightarrow> (case str_items xs of Inl e \<Rightarrow> Inl e | Inr ss \<Rightarrow> Inr (join_strs sep ss)))"

text \<open>
  \<open>str.isspace\<close> on one character and \<open>str.strip()\<close>: the white space of Python below
  code point 256 is 9 to 13, 28 to 32, 133 and 160.
\<close>

definition py_isspace :: "char \<Rightarrow> bool" where
  "py_isspace c =
     (let n = (of_char c :: nat)
      in (9 \<le> n \<and> n \<le> 13) \<or> (28 \<le> n \<and> n \<le> 32) \<or> n = 133 \<or> n = 160)"

definition py_strip :: "string \<Rightarrow> string" where
  "py_strip s = rev (dropWhile py_isspace (rev (dropWhile py_isspace s)))"

text \<open>Lines 83 to 86: the block of one book, its four expressions evaluated in order.\<close>

definition render_book :: "env \<Rightarrow> pydict \<Rightarrow> py_exception + string" where
  "render_book E book =
     (case dict_item book ''title'' of
        Inl e \<Rightarrow> Inl e
      | Inr title \<Rightarrow>
     (case dict_item book ''authors'' of
        Inl e \<Rightarrow> Inl e
      | Inr authors \<Rightarrow>
     (case py_join '', '' authors of
        Inl e \<Rightarrow> Inl e
      | Inr authors_text \<Rightarrow>
     (case dict_item book ''description'' of
        Inl e \<Rightarrow> Inl e
      | Inr description \<Rightarrow>
     (case dict_item book ''categories'' of
        Inl e \<Rightarrow> Inl e
      | Inr categories \<Rightarrow>
     (case py_join '', '' categories of
        Inl e \<Rightarrow> Inl e
      | Inr categories_text \<Rightarrow>
          Inr (''Book: '' @ format_value E title @ ''\<newline>'' @
               ''Authors: '' @ authors_text @ ''\<newline>'' @
               ''Description: '' @ format_value E description @ ''\<newline>'' @
               ''Categories: '' @ categories_text @ ''\<newline>'')))))))"

text \<open>The list comprehension of lines 82 to 88.\<close>

fun render_books :: "env \<Rightarrow> pydict list \<Rightarrow> py_exception + string list" where
  "render_books E [] = Inr []"
| "render_books E (book # books) =
     (case render_book E book of
        Inl e \<Rightarrow> Inl e
      | Inr block \<Rightarrow>
          (case render_books E books of Inl e \<Rightarrow> Inl e | Inr blocks \<Rightarrow> Inr (block # blocks)))"

definition build_context :: "env \<Rightarrow> pydict list \<Rightarrow> py_exception + string" where
  "build_context E books =
     (case render_books E books of
        Inl e \<Rightarrow> Inl e
      | Inr blocks \<Rightarrow> Inr (join_strs ''\<newline>'' blocks))"

text \<open>The template of lines 91 to 97.\<close>

definition prompt_template :: "string \<Rightarrow> string \<Rightarrow> string" where
  "prompt_template context question =
     ''Based on the following books information:\<newline>\<newline>'' @ context @
     ''\<newline>\<newline>Question: '' @ question @
     ''\<newline>\<newline>Please provide a detailed analysis of these books in relation to the question. Include relevant comparisons, themes, and insights.''"

definition build_prompt :: "env \<Rightarrow> pydict list \<Rightarrow> string \<Rightarrow> py_exception + string" where
  "build_prompt E books question =
     (case build_context E books of
        Inl e \<Rightarrow> Inl e
      | Inr context \<Rightarrow> Inr (prompt_template context question))"

text \<open>The body of the \<open>try\<close> (lines 82 to 110); \<open>generations[0]\<close> of no generation is an
  \<open>IndexError\<close>.\<close>

definition analyze_try ::
  "env \<Rightarrow> assistant \<Rightarrow> pydict list \<Rightarrow> string \<Rightarrow> world \<Rightarrow> (py_exception + string) \<times> world" where
  "analyze_try E self books question w =
     (case build_prompt E books question of
        Inl e \<Rightarrow> (Inl e, w)
      | Inr prompt \<Rightarrow>
          (let w1 = w\<lparr>generate_calls := generate_calls w @ [prompt]\<rparr>
           in (case cohere_generate E (length (generate_calls w)) prompt of
                 Inl e \<Rightarrow> (Inl e, w1)
               | Inr generations \<Rightarrow>
                   (case generations of
                      [] \<Rightarrow> (Inl IndexError, w1)
                    | text # _ \<Rightarrow> (Inr (py_strip text), w1)))))"

definition analyze_error_prefix :: string where
  "analyze_error_prefix = ''Error analyzing books with Cohere: ''"

definition apology :: string where
  "apology = ''I apologize, but I encountered an error while analyzing the books.''"

text \<open>\<open>analyze_books\<close> (lines 80 to 114).\<close>

definition analyze_books ::
  "env \<Rightarrow> assistant \<Rightarrow> pydict list \<Rightarrow> string \<Rightarrow> world \<Rightarrow> (py_exception + string) \<times> world" where
  "analyze_books E self books question w =
     (case analyze_try E self books question w of
        (Inr answer, w1) \<Rightarrow> (Inr answer, w1)
      | (Inl e, w1) \<Rightarrow>
          (if is_Exception e
           then (Inr apology, log_error analyze_error_prefix e w1)
           else (Inl e, w1)))"

section \<open>\<open>recommend_similar_books\<close>\<close>

text \<open>\<open>v != s\<close> for a string \<open>s\<close>: only an equal string is equal to it.\<close>

fun py_ne_str :: "pyval \<Rightarrow> string \<Rightarrow> bool" where
  "py_ne_str (PStr t) s = (t \<noteq> s)"
| "py_ne_str _ s = True"

text \<open>The list comprehension of line 144.\<close>

fun filter_books :: "string \<Rightarrow> pydict list \<Rightarrow> py_exception + pydict list" where
  "filter_books book_title [] = Inr []"
| "filter_books book_title (book # books) =
     (case dict_item book ''title'' of
        Inl e \<Rightarrow> Inl e
      | Inr title \<Rightarrow>
          (case filter_books book_title books of
             Inl e \<Rightarrow> Inl e
           | Inr kept \<Rightarrow> Inr (if py_ne_str title book_title then book # kept else kept)))"

text \<open>One turn of the loop (lines 140 to 145), \<open>similar_books\<close> being the list so far.\<close>

definition category_step ::
  "env \<Rightarrow> assistant \<Rightarrow> string \<Rightarrow> int \<Rightarrow> pydict list \<Rightarrow> pyval \<Rightarrow> world
     \<Rightarrow> (py_exception + pydict list) \<times> world" where
  "category_step E self book_title max_recommendations similar_books category w =
     (case search_books E self (''subject:'' @ format_value E category) max_recommendations w of
        (Inl e, w1) \<Rightarrow> (Inl e, w1)
      | (Inr books, w1) \<Rightarrow>
          (case filter_books book_title books of
             Inl e \<Rightarrow> (Inl e, w1)
           | Inr kept \<Rightarrow> (Inr (similar_books @ kept), w1)))"

text \<open>The loop of lines 139 to 145.\<close>

fun category_loop ::
  "env \<Rightarrow> assistant \<Rightarrow> string \<Rightarrow> int \<Rightarrow> pyval list \<Rightarrow> pydict list \<Rightarrow> world
     \<Rightarrow> (py_exception + pydict list) \<times> world" where
  "category_loop E self book_title max_recommendations [] similar_books w =
     (Inr similar_books, w)"
| "category_loop E self book_title max_recommendations (category # categories) similar_books w =
     (case category_step E self book_title max_recommendations similar_books category w of
        (Inl e, w1) \<Rightarrow> (Inl e, w1)
      | (Inr similar_books1, w1) \<Rightarrow>
          category_loop E self book_title max_recommendations categories similar_books1 w1)"

text \<open>The slice \<open>xs[:n]\<close>: a negative \<open>n\<close> counts from the end.\<close>

definition py_slice_to :: "'a list \<Rightarrow> int \<Rightarrow> 'a list" where
  "py_slice_to xs n = take (nat (if n < 0 then int (length xs) + n else n)) xs"

text \<open>The body of the \<open>try\<close> (lines 129 to 148).\<close>

definition recommend_try ::
  "env \<Rightarrow> assistant \<Rightarrow> string \<Rightarrow> int \<Rightarrow> world \<Rightarrow> (py_exception + pydict list) \<times> world" where
  "recommend_try E self book_title max_recommendations w =
     (case search_books E self book_title 1 w of
        (Inl e, w1) \<Rightarrow> (Inl e, w1)
      | (Inr reference_book, w1) \<Rightarrow>
          (case reference_book of
             [] \<Rightarrow> (Inr [], w1)
           | reference # _ \<Rightarrow>
               (case py_iter (dict_get reference ''categories'' (PList [])) of
                  Inl e \<Rightarrow> (Inl e, w1)
                | Inr categories \<Rightarrow>
                    (case category_loop E self book_title max_recommendations categories [] w1 of
                       (Inl e, w2) \<Rightarrow> (Inl e, w2)
                     | (Inr similar_books, w2) \<Rightarrow>
                         (Inr (py_slice_to similar_books max_recommendations), w2)))))"

definition recommend_error_prefix :: string where
  "recommend_error_prefix = ''Error recommending similar books: ''"

text \<open>\<open>recommend_similar_books\<close> (lines 127 to 152).\<close>

definition recommend_similar_books ::
  "env \<Rightarrow> assistant \<Rightarrow> string \<Rightarrow> int \<Rightarrow> world \<Rightarrow> (py_exception + pydict list) \<times> world" where
  "recommend_similar_books E self book_title max_recommendations w =
     (case recommend_try E self book_title max_recommendations w of
        (Inr books, w1) \<Rightarrow> (Inr books, w1)
      | (Inl e, w1) \<Rightarrow>
          (if is_Exception e
           then (Inr [], log_error recommend_error_prefix e w1)
           else (Inl e, w1)))"

section \<open>The data model and the response shape of the specification\<close>

text \<open>
  The book-search service answers with an object \<open>{items: [{volumeInfo: {...}}]}\<close> in
  which any field may be absent. \<open>spec_items\<close> is the \<open>items\<close> array of such a body, an
  absent one read as empty, and \<open>spec_volume_info\<close> the \<open>volumeInfo\<close> object of an item, an
  absent one read as the empty object; both are \<open>None\<close> on a value of another shape.
\<close>

definition spec_items :: "pydict \<Rightarrow> pyval list option" where
  "spec_items body =
     (case map_of body ''items'' of
        None \<Rightarrow> Some []
      | Some (PList items) \<Rightarrow> Some items
      | Some _ \<Rightarrow> None)"

definition spec_volume_info :: "pyval \<Rightarrow> pydict option" where
  "spec_volume_info item =
     (case item of
        PDict d \<Rightarrow>
          (case map_of d ''volumeInfo'' of
             None \<Rightarrow> Some []
           | Some (PDict vi) \<Rightarrow> Some vi
           | Some _ \<Rightarrow> None)
      | _ \<Rightarrow> None)"

text \<open>
  The BookRecord of a \<open>volumeInfo\<close> object: \<open>title\<close>, \<open>preview_link\<close> and \<open>page_count\<close> are
  optional (\<open>None\<close> when the service omits them), \<open>authors\<close> and \<open>categories\<close> are the empty
  sequence and \<open>description\<close> the empty string when absent.
\<close>

fun spec_field :: "pydict \<Rightarrow> string \<Rightarrow> pyval \<Rightarrow> pyval" where
  "spec_field [] name absent = absent"
| "spec_field ((k, v) # vi) name absent = (if k = name then v else spec_field vi name absent)"

definition spec_book_record :: "pydict \<Rightarrow> pydict" where
  "spec_book_record vi =
     [(''title'', spec_field vi ''title'' PNone),
      (''authors'', spec_field vi ''authors'' (PList [])),
      (''description'', spec_field vi ''description'' (PStr [])),
      (''categories'', spec_field vi ''categories'' (PList [])),
      (''preview_link'', spec_field vi ''previewLink'' PNone),
      (''page_count'', spec_field vi ''pageCount'' PNone)]"

text \<open>
  The text of a BookRecord as the context block shows it: the title (the word \<open>None\<close> for
  an absent one), the authors, the description and the categories, when the record has
  the types of the data model.
\<close>

fun spec_strings :: "pyval list \<Rightarrow> string list option" where
  "spec_strings [] = Some []"
| "spec_strings (v # vs) =
     (case (v, spec_strings vs) of
        (PStr s, Some ss) \<Rightarrow> Some (s # ss)
      | _ \<Rightarrow> None)"

definition spec_book_text :: "pydict \<Rightarrow> (string \<times> string list \<times> string \<times> string list) option" where
  "spec_book_text book =
     (case (map_of book ''title'', map_of book ''authors'',
            map_of book ''description'', map_of book ''categories'') of
        (Some title, Some (PList authors), Some (PStr description), Some (PList categories)) \<Rightarrow>
          (case (title, spec_strings authors, spec_strings categories) of
             (PStr t, Some as, Some cs) \<Rightarrow> Some (t, as, description, cs)
           | (PNone, Some as, Some cs) \<Rightarrow> Some (''None'', as, description, cs)
           | _ \<Rightarrow> None)
      | _ \<Rightarrow> None)"

fun comma_joined :: "string list \<Rightarrow> string" where
  "comma_joined [] = []"
| "comma_joined [s] = s"
| "comma_joined (s # ss) = s @ '', '' @ comma_joined ss"

text \<open>The four lines of a block, without the newline that ends the fourth.\<close>

definition spec_block_lines :: "string \<times> string list \<times> string \<times> string list \<Rightarrow> string" where
  "spec_block_lines f =
     (case f of (title, authors, description, categories) \<Rightarrow>
        ''Book: '' @ title @ ''\<newline>'' @
        ''Authors: '' @ comma_joined authors @ ''\<newline>'' @
        ''Description: '' @ description @ ''\<newline>'' @
        ''Categories: '' @ comma_joined categories)"

text \<open>
  Step 3 of Recommend without its filter: one Search for each category, in the order of
  the categories, with the query \<open>subject:<category>\<close> and \<open>max_results =
  max_recommendations\<close>; the results of the searches, in that order, unless one of them
  raises.
\<close>

fun spec_category_searches ::
  "env \<Rightarrow> assistant \<Rightarrow> int \<Rightarrow> pyval list \<Rightarrow> world
     \<Rightarrow> (py_exception + pydict list list) \<times> world" where
  "spec_category_searches E self max_recommendations [] w = (Inr [], w)"
| "spec_category_searches E self max_recommendations (category # categories) w =
     (case search_books E self (''subject:'' @ format_value E category) max_recommendations w of
        (Inl e, w1) \<Rightarrow> (Inl e, w1)
      | (Inr hits, w1) \<Rightarrow>
          (case spec_category_searches E self max_recommendations categories w1 of
             (Inl e, w2) \<Rightarrow> (Inl e, w2)
           | (Inr rest, w2) \<Rightarrow> (Inr (hits # rest), w2)))"

section \<open>Example services\<close>

definition example_assistant :: assistant where
  "example_assistant = init ''cohere-key'' ''books-key''"

definition new_world :: world where
  "new_world = \<lparr>error_log = [], http_calls = [], generate_calls = []\<rparr>"

definition ok_response :: "pyval \<Rightarrow> response" where
  "ok_response body = \<lparr>status_code = 200, http_error_msg = [], json_result = Inr body\<rparr>"

definition volume :: "string \<Rightarrow> string list \<Rightarrow> pyval" where
  "volume title categories =
     PDict [(''volumeInfo'',
             PDict [(''title'', PStr title), (''categories'', PList (map PStr categories))])]"

definition untitled_volume :: pyval where
  "untitled_volume = PDict [(''volumeInfo'', PDict [(''authors'', PList [PStr ''Anonymous''])])]"

definition items_body :: "pyval list \<Rightarrow> pyval" where
  "items_body items = PDict [(''kind'', PStr ''books#volumes''), (''items'', PList items)]"

text \<open>Two BookRecords, as \<open>search_books\<close> builds them.\<close>

definition dune_book :: pydict where
  "dune_book =
     [(''title'', PStr ''Dune''),
      (''authors'', PList [PStr ''Frank Herbert'']),
      (''description'', PStr ''A desert planet.''),
      (''categories'', PList [PStr ''Fiction'', PStr ''Science fiction'']),
      (''preview_link'', PNone),
      (''page_count'', PInt 412)]"

definition emma_book :: pydict where
  "emma_book =
     [(''title'', PStr ''Emma''),
      (''authors'', PList [PStr ''Jane Austen'']),
      (''description'', PStr []),
      (''categories'', PList []),
      (''preview_link'', PNone),
      (''page_count'', PNone)]"

text \<open>The BookRecords that \<open>search_books\<close> builds from \<open>volume\<close> and \<open>untitled_volume\<close>.\<close>

definition volume_record :: "string \<Rightarrow> string list \<Rightarrow> pydict" where
  "volume_record title categories =
     [(''title'', PStr title),
      (''authors'', PList []),
      (''description'', PStr []),
      (''categories'', PList (map PStr categories)),
      (''preview_link'', PNone),
      (''page_count'', PNone)]"

definition untitled_record :: pydict where
  "untitled_record =
     [(''title'', PNone),
      (''authors'', PList [PStr ''Anonymous'']),
      (''description'', PStr []),
      (''categories'', PList []),
      (''preview_link'', PNone),
      (''page_count'', PNone)]"

text \<open>The world after the calls \<open>qs\<close> of \<open>search_books\<close> by the example assistant, each a
  query and its \<open>max_results\<close>, none of which failed.\<close>

definition world_after :: "(string \<times> int) list \<Rightarrow> world" where
  "world_after qs =
     \<lparr>error_log = [],
      http_calls =
        map (\<lambda>qm. (''https://www.googleapis.com/books/v1/volumes'',
                    \<lparr>param_q = fst qm, param_key = ''books-key'', param_maxResults = snd qm\<rparr>)) qs,
      generate_calls = []\<rparr>"

text \<open>A service that knows a few books and answers a generation request with one text.\<close>

definition shelf_get :: "nat \<Rightarrow> string \<Rightarrow> params \<Rightarrow> py_exception + response" where
  "shelf_get n url p =
     (if param_q p = ''Dune'' then
        Inr (ok_response (items_body [volume ''Dune'' [''Fiction'']]))
      else if param_q p = ''subject:Fiction'' then
        Inr (ok_response (items_body
          [volume ''Dune'' [''Fiction''], volume ''Dune Messiah'' [''Fiction''], untitled_volume]))
      else if param_q p = ''Foundation'' then
        Inr (ok_response (items_body [volume ''Foundation'' [''Robots'', ''Empire'']]))
      else if param_q p = ''subject:Robots'' then
        Inr (ok_response (items_body
          [volume ''I, Robot'' [''Robots''], volume ''The Caves of Steel'' [''Robots''],
           volume ''The Naked Sun'' [''Robots'']]))
      else if param_q p = ''subject:Empire'' then
        Inr (ok_response (items_body
          [volume ''I, Robot'' [''Empire''], volume ''Foundation and Empire'' [''Empire''],
           volume ''Second Foundation'' [''Empire'']]))
      else if param_q p = ''Untagged'' then
        Inr (ok_response (items_body [volume ''Untagged'' []]))
      else if param_q p = ''dune'' then
        Inr (ok_response (items_body [volume ''Dune'' [''Fiction'']]))
      else Inr (ok_response (PDict [(''kind'', PStr ''books#volumes''), (''totalItems'', PInt 0)])))"

definition shelf_env :: env where
  "shelf_env =
     \<lparr>requests_get = shelf_get,
      cohere_generate = (\<lambda>n prompt. Inr [''  Both books are novels.\<newline>'']),
      py_str = (\<lambda>v. [])\<rparr>"

text \<open>A network that is down, and a generation service that fails.\<close>

definition offline_env :: env where
  "offline_env =
     \<lparr>requests_get = (\<lambda>n url p. Inl (RequestException ''Connection refused'')),
      cohere_generate = (\<lambda>n prompt. Inl (OtherException ''invalid api token'')),
      py_str = (\<lambda>v. [])\<rparr>"

text \<open>A service that answers every request with status 404.\<close>

definition not_found_env :: env where
  "not_found_env =
     \<lparr>requests_get = (\<lambda>n url p. Inr \<lparr>status_code = 404, http_error_msg = ''404 Client Error'',
                                   json_result = Inr (PDict [])\<rparr>),
      cohere_generate = (\<lambda>n prompt. Inr []),
      py_str = (\<lambda>v. [])\<rparr>"

text \<open>A service that answers status 200 with the body \<open>{"items": null}\<close>.\<close>

definition null_items_env :: env where
  "null_items_env =
     \<lparr>requests_get = (\<lambda>n url p. Inr (ok_response (PDict [(''items'', PNone)]))),
      cohere_generate = (\<lambda>n prompt. Inr []),
      py_str = (\<lambda>v. [])\<rparr>"

section \<open>Properties of \<open>search_books\<close>\<close>

lemma dict_get_spec_field: "dict_get d k dflt = spec_field d k dflt"
  by (induction d) (auto simp: dict_get_def)

lemma book_of_item_shaped:
  assumes "spec_volume_info item = Some vi"
  shows "book_of_item item = Inr (spec_book_record vi)"
proof -
  from assms obtain d where item: "item = PDict d"
    by (cases item) (simp_all add: spec_volume_info_def)
  from assms item have "dict_get d ''volumeInfo'' (PDict []) = PDict vi"
    by (simp add: spec_volume_info_def dict_get_def split: option.splits pyval.splits)
  then show ?thesis
    by (simp add: item book_of_item_def spec_book_record_def dict_get_spec_field)
qed

lemma books_loop_shaped:
  "map spec_volume_info items = map Some vis \<Longrightarrow>
   books_loop items books = Inr (books @ map spec_book_record vis)"
proof (induction items arbitrary: vis books)
  case Nil
  then show ?case by simp
next
  case (Cons item items)
  then obtain vi vis' where vis: "vis = vi # vis'" "spec_volume_info item = Some vi"
    "map spec_volume_info items = map Some vis'"
    by (cases vis) auto
  show ?case
    using Cons.IH [OF vis(3)] vis(1,2) by (simp add: book_of_item_shaped)
qed

lemma book_of_item_keys: "book_of_item item = Inr book \<Longrightarrow> map fst book = book_keys"
  by (auto simp: book_of_item_def book_keys_def split: sum.splits pyval.splits)

lemma books_loop_keys:
  "books_loop items books = Inr result \<Longrightarrow> list_all (\<lambda>b. map fst b = book_keys) books \<Longrightarrow>
   list_all (\<lambda>b. map fst b = book_keys) result"
  by (induction items arbitrary: books) (auto split: sum.splits dest: book_of_item_keys)

lemma books_of_response_keys:
  "books_of_response r = Inr result \<Longrightarrow> list_all (\<lambda>b. map fst b = book_keys) result"
  by (auto simp: books_of_response_def split: sum.splits dest: books_loop_keys)

lemma search_books_keys:
  "search_books E self query n w = (Inr result, w1) \<Longrightarrow>
   list_all (\<lambda>b. map fst b = book_keys) result"
  by (auto simp: search_books_def search_try_def Let_def
      split: sum.splits if_splits prod.splits dest: books_of_response_keys)

lemma search_books_world:
  "snd (search_books E self query n w) =
     (let p = \<lparr>param_q = query, param_key = google_books_api_key self, param_maxResults = n\<rparr>;
          w1 = w\<lparr>http_calls := http_calls w @ [(google_books_base_url self, p)]\<rparr>
      in case fst (search_try E self query n w) of
           Inl e \<Rightarrow> if is_RequestException e then log_error search_error_prefix e w1 else w1
         | Inr _ \<Rightarrow> w1)"
  by (auto simp: search_books_def search_try_def Let_def split: sum.splits prod.splits)

lemma py_ne_str_iff: "py_ne_str v s \<longleftrightarrow> v \<noteq> PStr s"
  by (cases v) auto

lemma keys_title: "map fst b = book_keys \<Longrightarrow> \<exists>t. map_of b ''title'' = Some t"
  by (cases b) (auto simp: book_keys_def)

lemma filter_books_titled:
  "list_all (\<lambda>b. map_of b ''title'' \<noteq> None) books \<Longrightarrow>
   filter_books book_title books =
     Inr (filter (\<lambda>b. map_of b ''title'' \<noteq> Some (PStr book_title)) books)"
  by (induction books) (auto simp: dict_item_def py_ne_str_iff split: option.splits)


lemma search_try_world:
  "snd (search_try E self query n w) =
     w\<lparr>http_calls := http_calls w @
        [(google_books_base_url self,
          \<lparr>param_q = query, param_key = google_books_api_key self, param_maxResults = n\<rparr>)]\<rparr>"
  by (simp add: search_try_def Let_def split: sum.splits)

lemma books_of_response_shaped:
  assumes "\<not> (400 \<le> status_code r \<and> status_code r < 600)"
    and "json_result r = Inr (PDict body)"
    and "spec_items body = Some items"
    and "map spec_volume_info items = map Some vis"
  shows "books_of_response r = Inr (map spec_book_record vis)"
proof -
  have "py_iter (dict_get body ''items'' (PList [])) = Inr items"
    using assms(3) by (auto simp: spec_items_def dict_get_def split: option.splits pyval.splits)
  then show ?thesis
    using assms(1,2) books_loop_shaped [OF assms(4), of "[]"]
    by (simp add: books_of_response_def raise_for_status_def)
qed

text \<open>
  Claim C4. When the service answers with a 2xx status and a body of the shape
  \<open>{items: [{volumeInfo: {...}}]}\<close> (\<open>items\<close> absent or an array, each item an object whose
  \<open>volumeInfo\<close> is absent or an object), \<open>search_books\<close> returns one BookRecord for each
  element of \<open>items\<close>, in the order of the response, nothing re-sorted and nothing
  removed: the record of the data model for that \<open>volumeInfo\<close>, with \<open>None\<close> for an absent
  title, preview link or page count, the empty sequence for absent authors or categories
  and the empty string for an absent description. The result has as many entries as
  \<open>items\<close> has.
\<close>

theorem search_success_maps_items:
  assumes "requests_get E (length (http_calls w)) (google_books_base_url self)
             \<lparr>param_q = query, param_key = google_books_api_key self,
                param_maxResults = max_results\<rparr> = Inr r"
    and "200 \<le> status_code r \<and> status_code r < 300"
    and "json_result r = Inr (PDict body)"
    and "spec_items body = Some items"
    and "map spec_volume_info items = map Some vis"
  shows "search_books E self query max_results w =
           (Inr (map spec_book_record vis),
            w\<lparr>http_calls := http_calls w @
               [(google_books_base_url self,
                 \<lparr>param_q = query, param_key = google_books_api_key self,
                    param_maxResults = max_results\<rparr>)]\<rparr>)
         \<and> length (map spec_book_record vis) = length items"
proof -
  have ok: "\<not> (400 \<le> status_code r \<and> status_code r < 600)"
    using assms(2) by simp
  have "books_of_response r = Inr (map spec_book_record vis)"
    by (rule books_of_response_shaped [OF ok assms(3) assms(4) assms(5)])
  then have "search_books E self query max_results w =
           (Inr (map spec_book_record vis),
            w\<lparr>http_calls := http_calls w @
               [(google_books_base_url self,
                 \<lparr>param_q = query, param_key = google_books_api_key self,
                    param_maxResults = max_results\<rparr>)]\<rparr>)"
    using assms(1) by (simp add: search_books_def search_try_def Let_def)
  moreover have "length vis = length items"
    using assms(5) by (metis length_map)
  ultimately show ?thesis by simp
qed

text \<open>The theorem at the three volumes the example service lists under \<open>subject:Fiction\<close>;
  the third has no title.\<close>

theorem search_success_maps_items_witness:
  "search_books shelf_env example_assistant ''subject:Fiction'' 5 new_world =
     (Inr (map spec_book_record
        [[(''title'', PStr ''Dune''), (''categories'', PList [PStr ''Fiction''])],
         [(''title'', PStr ''Dune Messiah''), (''categories'', PList [PStr ''Fiction''])],
         [(''authors'', PList [PStr ''Anonymous''])]]),
      new_world\<lparr>http_calls := http_calls new_world @
        [(google_books_base_url example_assistant,
          \<lparr>param_q = ''subject:Fiction'', param_key = google_books_api_key example_assistant,
             param_maxResults = 5\<rparr>)]\<rparr>)
   \<and> length (map spec_book_record
        [[(''title'', PStr ''Dune''), (''categories'', PList [PStr ''Fiction''])],
         [(''title'', PStr ''Dune Messiah''), (''categories'', PList [PStr ''Fiction''])],
         [(''authors'', PList [PStr ''Anonymous''])]])
     = length [volume ''Dune'' [''Fiction''], volume ''Dune Messiah'' [''Fiction''], untitled_volume]"
proof (rule search_success_maps_items)
  show "requests_get shelf_env (length (http_calls new_world))
          (google_books_base_url example_assistant)
          \<lparr>param_q = ''subject:Fiction'', param_key = google_books_api_key example_assistant,
             param_maxResults = 5\<rparr> =
        Inr (ok_response (items_body
          [volume ''Dune'' [''Fiction''], volume ''Dune Messiah'' [''Fiction''], untitled_volume]))"
    by (simp add: shelf_env_def shelf_get_def)
  show "200 \<le> status_code (ok_response (items_body
          [volume ''Dune'' [''Fiction''], volume ''Dune Messiah'' [''Fiction''], untitled_volume]))
        \<and> status_code (ok_response (items_body
          [volume ''Dune'' [''Fiction''], volume ''Dune Messiah'' [''Fiction''], untitled_volume])) < 300"
    by (simp add: ok_response_def)
  show "json_result (ok_response (items_body
          [volume ''Dune'' [''Fiction''], volume ''Dune Messiah'' [''Fiction''], untitled_volume])) =
        Inr (PDict [(''kind'', PStr ''books#volumes''), (''items'', PList
          [volume ''Dune'' [''Fiction''], volume ''Dune Messiah'' [''Fiction''], untitled_volume])])"
    by (simp add: ok_response_def items_body_def)
  show "spec_items [(''kind'', PStr ''books#volumes''), (''items'', PList
          [volume ''Dune'' [''Fiction''], volume ''Dune Messiah'' [''Fiction''], untitled_volume])] =
        Some [volume ''Dune'' [''Fiction''], volume ''Dune Messiah'' [''Fiction''], untitled_volume]"
    by (simp add: spec_items_def)
  show "map spec_volume_info
          [volume ''Dune'' [''Fiction''], volume ''Dune Messiah'' [''Fiction''], untitled_volume] =
        map Some
        [[(''title'', PStr ''Dune''), (''categories'', PList [PStr ''Fiction''])],
         [(''title'', PStr ''Dune Messiah''), (''categories'', PList [PStr ''Fiction''])],
         [(''authors'', PList [PStr ''Anonymous''])]]"
    by (simp add: spec_volume_info_def volume_def untitled_volume_def)
qed

text \<open>
  Claim C3, as the specification states it, fails: \<open>search_books\<close> catches
  \<open>RequestException\<close> only. A status 200 whose body is \<open>{"items": null}\<close> makes the loop of
  line 52 iterate over \<open>None\<close>, and the \<open>TypeError\<close> leaves \<open>search_books\<close>.
\<close>

theorem search_raises_on_null_items:
  "fst (search_books null_items_env example_assistant ''Dune'' 5 new_world) = Inl TypeError"
  by (simp add: search_books_def search_try_def null_items_env_def example_assistant_def
      init_def new_world_def ok_response_def books_of_response_def raise_for_status_def
      dict_get_def)

lemma search_books_not_request_exception:
  "fst (search_books E self query n w) \<noteq> Inl (RequestException msg)"
proof (cases "search_try E self query n w")
  case (Pair r w1)
  then show ?thesis
    by (cases r) (auto simp: search_books_def)
qed

lemma search_try_request_exception:
  assumes "requests_get E (length (http_calls w)) (google_books_base_url self)
             \<lparr>param_q = query, param_key = google_books_api_key self, param_maxResults = n\<rparr>
           = Inl (RequestException msg)
         \<or> (\<exists>r. requests_get E (length (http_calls w)) (google_books_base_url self)
             \<lparr>param_q = query, param_key = google_books_api_key self, param_maxResults = n\<rparr>
             = Inr r \<and>
             ((400 \<le> status_code r \<and> status_code r < 600 \<and> http_error_msg r = msg) \<or>
              (\<not> (400 \<le> status_code r \<and> status_code r < 600) \<and>
               json_result r = Inl (RequestException msg))))"
  shows "search_try E self query n w =
           (Inl (RequestException msg),
            w\<lparr>http_calls := http_calls w @
               [(google_books_base_url self,
                 \<lparr>param_q = query, param_key = google_books_api_key self,
                    param_maxResults = n\<rparr>)]\<rparr>)"
  using assms
  by (auto simp: search_try_def Let_def books_of_response_def raise_for_status_def)

text \<open>
  Claim C3, amended. \<open>search_books\<close> never lets a \<open>RequestException\<close> out. When
  \<open>requests.get\<close> raises one (a network or transport failure), when the status is from 400
  to 599, or when decoding the body raises one, \<open>search_books\<close> writes one record to the
  log and returns the empty list.
\<close>

theorem search_swallows_request_exceptions:
  "(\<forall>msg. fst (search_books E self query n w) \<noteq> Inl (RequestException msg)) \<and>
   ((requests_get E (length (http_calls w)) (google_books_base_url self)
             \<lparr>param_q = query, param_key = google_books_api_key self, param_maxResults = n\<rparr>
           = Inl (RequestException msg)
     \<or> (\<exists>r. requests_get E (length (http_calls w)) (google_books_base_url self)
             \<lparr>param_q = query, param_key = google_books_api_key self, param_maxResults = n\<rparr>
             = Inr r \<and>
             ((400 \<le> status_code r \<and> status_code r < 600 \<and> http_error_msg r = msg) \<or>
              (\<not> (400 \<le> status_code r \<and> status_code r < 600) \<and>
               json_result r = Inl (RequestException msg)))))
    \<longrightarrow> search_books E self query n w =
          (Inr [],
           log_error search_error_prefix (RequestException msg)
             (w\<lparr>http_calls := http_calls w @
                [(google_books_base_url self,
                  \<lparr>param_q = query, param_key = google_books_api_key self,
                     param_maxResults = n\<rparr>)]\<rparr>)))"
proof (intro conjI allI impI)
  fix m
  show "fst (search_books E self query n w) \<noteq> Inl (RequestException m)"
    by (rule search_books_not_request_exception)
next
  assume a: "requests_get E (length (http_calls w)) (google_books_base_url self)
             \<lparr>param_q = query, param_key = google_books_api_key self, param_maxResults = n\<rparr>
           = Inl (RequestException msg)
     \<or> (\<exists>r. requests_get E (length (http_calls w)) (google_books_base_url self)
             \<lparr>param_q = query, param_key = google_books_api_key self, param_maxResults = n\<rparr>
             = Inr r \<and>
             ((400 \<le> status_code r \<and> status_code r < 600 \<and> http_error_msg r = msg) \<or>
              (\<not> (400 \<le> status_code r \<and> status_code r < 600) \<and>
               json_result r = Inl (RequestException msg))))"
  show "search_books E self query n w =
          (Inr [],
           log_error search_error_prefix (RequestException msg)
             (w\<lparr>http_calls := http_calls w @
                [(google_books_base_url self,
                  \<lparr>param_q = query, param_key = google_books_api_key self,
                     param_maxResults = n\<rparr>)]\<rparr>))"
    by (simp add: search_books_def search_try_request_exception [OF a])
qed

text \<open>The theorem at a network that is down and at a service that answers 404: in both,
  the empty list and one record in the log.\<close>

theorem search_swallows_request_exceptions_witness:
  "search_books offline_env example_assistant ''Dune'' 5 new_world =
     (Inr [],
      \<lparr>error_log = [(''Error searching Google Books API: '',
                     RequestException ''Connection refused'')],
       http_calls = [(''https://www.googleapis.com/books/v1/volumes'',
                      \<lparr>param_q = ''Dune'', param_key = ''books-key'', param_maxResults = 5\<rparr>)],
       generate_calls = []\<rparr>)
   \<and> search_books not_found_env example_assistant ''Dune'' 5 new_world =
     (Inr [],
      \<lparr>error_log = [(''Error searching Google Books API: '',
                     RequestException ''404 Client Error'')],
       http_calls = [(''https://www.googleapis.com/books/v1/volumes'',
                      \<lparr>param_q = ''Dune'', param_key = ''books-key'', param_maxResults = 5\<rparr>)],
       generate_calls = []\<rparr>)"
proof
  have h: "requests_get offline_env (length (http_calls new_world))
             (google_books_base_url example_assistant)
             \<lparr>param_q = ''Dune'', param_key = google_books_api_key example_assistant,
                param_maxResults = 5\<rparr>
           = Inl (RequestException ''Connection refused'')"
    by (simp add: offline_env_def)
  have "search_books offline_env example_assistant ''Dune'' 5 new_world =
          (Inr [],
           log_error search_error_prefix (RequestException ''Connection refused'')
             (new_world\<lparr>http_calls := http_calls new_world @
                [(google_books_base_url example_assistant,
                  \<lparr>param_q = ''Dune'', param_key = google_books_api_key example_assistant,
                     param_maxResults = 5\<rparr>)]\<rparr>))"
    using search_swallows_request_exceptions
      [of offline_env example_assistant "''Dune''" 5 new_world "''Connection refused''"] h
    by blast
  then show "search_books offline_env example_assistant ''Dune'' 5 new_world =
     (Inr [],
      \<lparr>error_log = [(''Error searching Google Books API: '',
                     RequestException ''Connection refused'')],
       http_calls = [(''https://www.googleapis.com/books/v1/volumes'',
                      \<lparr>param_q = ''Dune'', param_key = ''books-key'', param_maxResults = 5\<rparr>)],
       generate_calls = []\<rparr>)"
    by (simp add: log_error_def search_error_prefix_def new_world_def example_assistant_def
        init_def)
next
  have h: "\<exists>r. requests_get not_found_env (length (http_calls new_world))
             (google_books_base_url example_assistant)
             \<lparr>param_q = ''Dune'', param_key = google_books_api_key example_assistant,
                param_maxResults = 5\<rparr> = Inr r \<and>
             ((400 \<le> status_code r \<and> status_code r < 600 \<and>
               http_error_msg r = ''404 Client Error'') \<or>
              (\<not> (400 \<le> status_code r \<and> status_code r < 600) \<and>
               json_result r = Inl (RequestException ''404 Client Error'')))"
    by (simp add: not_found_env_def)
  have "search_books not_found_env example_assistant ''Dune'' 5 new_world =
          (Inr [],
           log_error search_error_prefix (RequestException ''404 Client Error'')
             (new_world\<lparr>http_calls := http_calls new_world @
                [(google_books_base_url example_assistant,
                  \<lparr>param_q = ''Dune'', param_key = google_books_api_key example_assistant,
                     param_maxResults = 5\<rparr>)]\<rparr>))"
    using search_swallows_request_exceptions
      [of not_found_env example_assistant "''Dune''" 5 new_world "''404 Client Error''"] h
    by blast
  then show "search_books not_found_env example_assistant ''Dune'' 5 new_world =
     (Inr [],
      \<lparr>error_log = [(''Error searching Google Books API: '',
                     RequestException ''404 Client Error'')],
       http_calls = [(''https://www.googleapis.com/books/v1/volumes'',
                      \<lparr>param_q = ''Dune'', param_key = ''books-key'', param_maxResults = 5\<rparr>)],
       generate_calls = []\<rparr>)"
    by (simp add: log_error_def search_error_prefix_def new_world_def example_assistant_def
        init_def)
qed

section \<open>Properties of \<open>analyze_books\<close>\<close>

lemma analyze_books_cases:
  "analyze_books E self books question w =
     (case build_prompt E books question of
        Inl e \<Rightarrow> (Inr apology, log_error analyze_error_prefix e w)
      | Inr prompt \<Rightarrow>
          (case cohere_generate E (length (generate_calls w)) prompt of
             Inl e \<Rightarrow>
               (Inr apology,
                log_error analyze_error_prefix e
                  (w\<lparr>generate_calls := generate_calls w @ [prompt]\<rparr>))
           | Inr generations \<Rightarrow>
               (case generations of
                  [] \<Rightarrow>
                    (Inr apology,
                     log_error analyze_error_prefix IndexError
                       (w\<lparr>generate_calls := generate_calls w @ [prompt]\<rparr>))
                | text # rest \<Rightarrow>
                    (Inr (py_strip text), w\<lparr>generate_calls := generate_calls w @ [prompt]\<rparr>))))"
  by (simp add: analyze_books_def analyze_try_def Let_def split: sum.splits list.splits)

lemma analyze_books_returns:
  "\<exists>answer w1. analyze_books E self books question w = (Inr answer, w1)"
  by (simp add: analyze_books_cases split: sum.splits list.splits)

lemma last_dropWhile: "dropWhile P xs \<noteq> [] \<Longrightarrow> last (dropWhile P xs) = last xs"
  by (induction xs) (auto split: if_splits)

lemma py_strip_split:
  "\<exists>pre post. text = pre @ py_strip text @ post \<and> list_all py_isspace pre \<and>
     list_all py_isspace post"
proof -
  define t where "t = dropWhile py_isspace text"
  have a: "text = takeWhile py_isspace text @ t"
    by (simp add: t_def)
  have "rev (takeWhile py_isspace (rev t) @ dropWhile py_isspace (rev t)) = rev (rev t)"
    by (simp only: takeWhile_dropWhile_id)
  then have "rev (dropWhile py_isspace (rev t)) @ rev (takeWhile py_isspace (rev t)) = t"
    by (simp only: rev_append rev_rev_ident)
  then have b: "t = py_strip text @ rev (takeWhile py_isspace (rev t))"
    by (simp add: py_strip_def t_def)
  have c: "list_all py_isspace (takeWhile py_isspace text)"
    by (simp add: list_all_iff) (meson set_takeWhileD)
  have d: "list_all py_isspace (rev (takeWhile py_isspace (rev t)))"
    by (simp add: list_all_iff) (meson set_takeWhileD)
  from a b have "text = takeWhile py_isspace text @ py_strip text @
      rev (takeWhile py_isspace (rev t))"
    by simp
  with c d show ?thesis by blast
qed

lemma py_strip_ends:
  assumes "py_strip text \<noteq> []"
  shows "\<not> py_isspace (hd (py_strip text)) \<and> \<not> py_isspace (last (py_strip text))"
proof -
  define t where "t = dropWhile py_isspace text"
  define u where "u = dropWhile py_isspace (rev t)"
  have s: "py_strip text = rev u"
    by (simp add: py_strip_def t_def u_def)
  with assms have u: "u \<noteq> []" by simp
  then have "\<not> py_isspace (hd u)"
    unfolding u_def by (rule hd_dropWhile)
  then have l: "\<not> py_isspace (last (py_strip text))"
    using u by (simp add: s last_rev)
  have t: "t \<noteq> []"
    using u by (auto simp: u_def)
  then have "\<not> py_isspace (hd t)"
    unfolding t_def by (rule hd_dropWhile)
  moreover have "last u = last (rev t)"
    using u unfolding u_def by (rule last_dropWhile)
  ultimately have "\<not> py_isspace (hd (py_strip text))"
    using u t by (simp add: s hd_rev last_rev)
  with l show ?thesis by simp
qed

text \<open>
  Claim C5. \<open>analyze_books\<close> never raises. Whatever fails, building the prompt (a missing
  key, authors that cannot be joined), the generation call, or a response without a
  generation, it writes one record to the log and returns the fixed apology. Otherwise it
  returns the text of the first generation without its leading and trailing white
  space: that text is the original between two runs of white space, and it neither
  begins nor ends with white space.
\<close>

theorem analyze_never_raises:
  "(\<exists>answer w1. analyze_books E self books question w = (Inr answer, w1)) \<and>
   analyze_books E self books question w =
     (case build_prompt E books question of
        Inl e \<Rightarrow> (Inr apology, log_error analyze_error_prefix e w)
      | Inr prompt \<Rightarrow>
          (case cohere_generate E (length (generate_calls w)) prompt of
             Inl e \<Rightarrow>
               (Inr apology,
                log_error analyze_error_prefix e
                  (w\<lparr>generate_calls := generate_calls w @ [prompt]\<rparr>))
           | Inr generations \<Rightarrow>
               (case generations of
                  [] \<Rightarrow>
                    (Inr apology,
                     log_error analyze_error_prefix IndexError
                       (w\<lparr>generate_calls := generate_calls w @ [prompt]\<rparr>))
                | text # rest \<Rightarrow>
                    (Inr (py_strip text), w\<lparr>generate_calls := generate_calls w @ [prompt]\<rparr>)))) \<and>
   (\<exists>pre post. answer_text = pre @ py_strip answer_text @ post \<and>
      list_all py_isspace pre \<and> list_all py_isspace post) \<and>
   (py_strip answer_text \<noteq> [] \<longrightarrow>
      \<not> py_isspace (hd (py_strip answer_text)) \<and> \<not> py_isspace (last (py_strip answer_text)))"
  using analyze_books_returns [of E self books question w]
    analyze_books_cases [of E self books question w]
    py_strip_split [of answer_text] py_strip_ends [of answer_text]
  by blast


text \<open>The theorem at one book and a service that answers, and at a generation service
  that fails.\<close>

theorem analyze_never_raises_witness:
  "fst (analyze_books shelf_env example_assistant [dune_book] ''Which one?'' new_world) =
     Inr ''Both books are novels.''
   \<and> analyze_books offline_env example_assistant [dune_book] ''Which one?'' new_world =
     (Inr ''I apologize, but I encountered an error while analyzing the books.'',
      \<lparr>error_log = [(''Error analyzing books with Cohere: '',
                     OtherException ''invalid api token'')],
       http_calls = [],
       generate_calls =
         [''Based on the following books information:\<newline>\<newline>Book: Dune\<newline>Authors: Frank Herbert\<newline>Description: A desert planet.\<newline>Categories: Fiction, Science fiction\<newline>\<newline>\<newline>Question: Which one?\<newline>\<newline>Please provide a detailed analysis of these books in relation to the question. Include relevant comparisons, themes, and insights.'']\<rparr>)"
proof
  have p: "build_prompt E [dune_book] ''Which one?'' =
    Inr ''Based on the following books information:\<newline>\<newline>Book: Dune\<newline>Authors: Frank Herbert\<newline>Description: A desert planet.\<newline>Categories: Fiction, Science fiction\<newline>\<newline>\<newline>Question: Which one?\<newline>\<newline>Please provide a detailed analysis of these books in relation to the question. Include relevant comparisons, themes, and insights.''" for E
    by (simp add: build_prompt_def build_context_def render_book_def dune_book_def
        dict_item_def py_join_def prompt_template_def)
  have s: "py_strip ''  Both books are novels.\<newline>'' = ''Both books are novels.''"
    by (simp add: py_strip_def py_isspace_def)
  from analyze_never_raises
    [of shelf_env example_assistant "[dune_book]" "''Which one?''" new_world "[]"]
  have "analyze_books shelf_env example_assistant [dune_book] ''Which one?'' new_world =
     (case build_prompt shelf_env [dune_book] ''Which one?'' of
        Inl e \<Rightarrow> (Inr apology, log_error analyze_error_prefix e new_world)
      | Inr prompt \<Rightarrow>
          (case cohere_generate shelf_env (length (generate_calls new_world)) prompt of
             Inl e \<Rightarrow>
               (Inr apology,
                log_error analyze_error_prefix e
                  (new_world\<lparr>generate_calls := generate_calls new_world @ [prompt]\<rparr>))
           | Inr generations \<Rightarrow>
               (case generations of
                  [] \<Rightarrow>
                    (Inr apology,
                     log_error analyze_error_prefix IndexError
                       (new_world\<lparr>generate_calls := generate_calls new_world @ [prompt]\<rparr>))
                | text # rest \<Rightarrow>
                    (Inr (py_strip text),
                     new_world\<lparr>generate_calls := generate_calls new_world @ [prompt]\<rparr>))))"
    by blast
  then show "fst (analyze_books shelf_env example_assistant [dune_book] ''Which one?'' new_world) =
     Inr ''Both books are novels.''"
    by (simp add: p s shelf_env_def)
next
  have p: "build_prompt E [dune_book] ''Which one?'' =
    Inr ''Based on the following books information:\<newline>\<newline>Book: Dune\<newline>Authors: Frank Herbert\<newline>Description: A desert planet.\<newline>Categories: Fiction, Science fiction\<newline>\<newline>\<newline>Question: Which one?\<newline>\<newline>Please provide a detailed analysis of these books in relation to the question. Include relevant comparisons, themes, and insights.''" for E
    by (simp add: build_prompt_def build_context_def render_book_def dune_book_def
        dict_item_def py_join_def prompt_template_def)
  from analyze_never_raises
    [of offline_env example_assistant "[dune_book]" "''Which one?''" new_world "[]"]
  have "analyze_books offline_env example_assistant [dune_book] ''Which one?'' new_world =
     (case build_prompt offline_env [dune_book] ''Which one?'' of
        Inl e \<Rightarrow> (Inr apology, log_error analyze_error_prefix e new_world)
      | Inr prompt \<Rightarrow>
          (case cohere_generate offline_env (length (generate_calls new_world)) prompt of
             Inl e \<Rightarrow>
               (Inr apology,
                log_error analyze_error_prefix e
                  (new_world\<lparr>generate_calls := generate_calls new_world @ [prompt]\<rparr>))
           | Inr generations \<Rightarrow>
               (case generations of
                  [] \<Rightarrow>
                    (Inr apology,
                     log_error analyze_error_prefix IndexError
                       (new_world\<lparr>generate_calls := generate_calls new_world @ [prompt]\<rparr>))
                | text # rest \<Rightarrow>
                    (Inr (py_strip text),
                     new_world\<lparr>generate_calls := generate_calls new_world @ [prompt]\<rparr>))))"
    by blast
  then show "analyze_books offline_env example_assistant [dune_book] ''Which one?'' new_world =
     (Inr ''I apologize, but I encountered an error while analyzing the books.'',
      \<lparr>error_log = [(''Error analyzing books with Cohere: '',
                     OtherException ''invalid api token'')],
       http_calls = [],
       generate_calls =
         [''Based on the following books information:\<newline>\<newline>Book: Dune\<newline>Authors: Frank Herbert\<newline>Description: A desert planet.\<newline>Categories: Fiction, Science fiction\<newline>\<newline>\<newline>Question: Which one?\<newline>\<newline>Please provide a detailed analysis of these books in relation to the question. Include relevant comparisons, themes, and insights.'']\<rparr>)"
    by (simp add: p offline_env_def apology_def log_error_def analyze_error_prefix_def
        new_world_def)
qed

lemma analyze_books_generate_calls:
  "generate_calls (snd (analyze_books E self books question w)) =
     generate_calls w @
       (case build_prompt E books question of Inl e \<Rightarrow> [] | Inr prompt \<Rightarrow> [prompt])"
  by (simp add: analyze_books_cases log_error_def split: sum.splits list.splits)

text \<open>
  Claim C8. On the empty list of books \<open>analyze_books\<close> takes no shortcut: it calls the
  generation service once, and the prompt of that call is the fixed template with the
  empty string at the place of the context.
\<close>

theorem analyze_empty_books_calls_generate:
  "generate_calls (snd (analyze_books E self [] question w)) =
     generate_calls w @ [prompt_template [] question]
   \<and> prompt_template [] question =
     ''Based on the following books information:\<newline>\<newline>'' @ [] @
     ''\<newline>\<newline>Question: '' @ question @
     ''\<newline>\<newline>Please provide a detailed analysis of these books in relation to the question. Include relevant comparisons, themes, and insights.''
   \<and> fst (analyze_books E self [] question w) =
     (case cohere_generate E (length (generate_calls w)) (prompt_template [] question) of
        Inl e \<Rightarrow> Inr apology
      | Inr generations \<Rightarrow>
          (case generations of [] \<Rightarrow> Inr apology | text # rest \<Rightarrow> Inr (py_strip text)))"
proof -
  have p: "build_prompt E [] question = Inr (prompt_template [] question)"
    by (simp add: build_prompt_def build_context_def)
  have c1: "generate_calls (snd (analyze_books E self [] question w)) =
     generate_calls w @ [prompt_template [] question]"
    by (simp add: analyze_books_generate_calls p)
  have c2: "prompt_template [] question =
     ''Based on the following books information:\<newline>\<newline>'' @ [] @
     ''\<newline>\<newline>Question: '' @ question @
     ''\<newline>\<newline>Please provide a detailed analysis of these books in relation to the question. Include relevant comparisons, themes, and insights.''"
    by (simp only: prompt_template_def)
  have c3: "fst (analyze_books E self [] question w) =
     (case cohere_generate E (length (generate_calls w)) (prompt_template [] question) of
        Inl e \<Rightarrow> Inr apology
      | Inr generations \<Rightarrow>
          (case generations of [] \<Rightarrow> Inr apology | text # rest \<Rightarrow> Inr (py_strip text)))"
    by (simp add: analyze_books_cases p split: sum.splits list.splits)
  from c1 c2 c3 show ?thesis by (intro conjI)
qed

text \<open>The theorem at a generation service that fails: the call is made all the same.\<close>

theorem analyze_empty_books_calls_generate_witness:
  "generate_calls (snd (analyze_books offline_env example_assistant [] ''Which one?'' new_world)) =
     [''Based on the following books information:\<newline>\<newline>\<newline>\<newline>Question: Which one?\<newline>\<newline>Please provide a detailed analysis of these books in relation to the question. Include relevant comparisons, themes, and insights.'']"
proof -
  from analyze_empty_books_calls_generate
    [of offline_env example_assistant "''Which one?''" new_world]
  have "generate_calls (snd (analyze_books offline_env example_assistant [] ''Which one?''
          new_world)) =
        generate_calls new_world @ [prompt_template [] ''Which one?'']"
    by (rule conjunct1)
  then show ?thesis
    by (simp add: new_world_def prompt_template_def)
qed

lemma format_value_env: "py_str E1 = py_str E2 \<Longrightarrow> format_value E1 v = format_value E2 v"
  by (cases v) simp_all

lemma render_book_env: "py_str E1 = py_str E2 \<Longrightarrow> render_book E1 book = render_book E2 book"
  by (simp add: render_book_def format_value_env [of E1 E2] cong: sum.case_cong)

lemma render_books_env: "py_str E1 = py_str E2 \<Longrightarrow> render_books E1 books = render_books E2 books"
  by (induction books) (simp_all add: render_book_env [of E1 E2] split: sum.splits)

lemma build_prompt_env:
  "py_str E1 = py_str E2 \<Longrightarrow> build_prompt E1 books question = build_prompt E2 books question"
  by (simp add: build_prompt_def build_context_def render_books_env [of E1 E2])

lemma str_items_spec: "spec_strings vs = Some ss \<Longrightarrow> str_items vs = Inr ss"
proof (induction vs arbitrary: ss)
  case Nil
  then show ?case by simp
next
  case (Cons v vs)
  then show ?case
    by (cases v) (auto split: option.splits)
qed

lemma join_comma: "join_strs '', '' ss = comma_joined ss"
  by (induction ss rule: comma_joined.induct) simp_all

lemma py_join_spec: "spec_strings vs = Some ss \<Longrightarrow> py_join '', '' (PList vs) = Inr (comma_joined ss)"
  by (simp add: py_join_def str_items_spec join_comma)

lemma spec_book_text_fields:
  assumes "spec_book_text book = Some (t, as, d, cs)"
  shows "\<exists>title authors categories.
           dict_item book ''title'' = Inr title \<and> format_value E title = t \<and>
           dict_item book ''authors'' = Inr (PList authors) \<and> spec_strings authors = Some as \<and>
           dict_item book ''description'' = Inr (PStr d) \<and>
           dict_item book ''categories'' = Inr (PList categories) \<and>
           spec_strings categories = Some cs"
proof -
  from assms obtain title where 1: "map_of book ''title'' = Some title"
    by (cases "map_of book ''title''") (simp_all add: spec_book_text_def)
  from assms 1 obtain av where 2: "map_of book ''authors'' = Some av"
    by (cases "map_of book ''authors''") (simp_all add: spec_book_text_def)
  from assms 1 2 obtain authors where 3: "av = PList authors"
    by (cases av) (simp_all add: spec_book_text_def)
  from assms 1 2 3 obtain dv where 4: "map_of book ''description'' = Some dv"
    by (cases "map_of book ''description''") (simp_all add: spec_book_text_def)
  from assms 1 2 3 4 obtain d' where 5: "dv = PStr d'"
    by (cases dv) (simp_all add: spec_book_text_def)
  from assms 1 2 3 4 5 obtain cv where 6: "map_of book ''categories'' = Some cv"
    by (cases "map_of book ''categories''") (simp_all add: spec_book_text_def)
  from assms 1 2 3 4 5 6 obtain categories where 7: "cv = PList categories"
    by (cases cv) (simp_all add: spec_book_text_def)
  from assms 1 2 3 4 5 6 7
  have 8: "(case (title, spec_strings authors, spec_strings categories) of
             (PStr t, Some as, Some cs) \<Rightarrow> Some (t, as, d', cs)
           | (PNone, Some as, Some cs) \<Rightarrow> Some (''None'', as, d', cs)
           | _ \<Rightarrow> None) = Some (t, as, d, cs)"
    by (simp add: spec_book_text_def)
  then obtain as' where 9: "spec_strings authors = Some as'"
    by (cases "spec_strings authors") (auto split: pyval.splits)
  from 8 9 obtain cs' where 10: "spec_strings categories = Some cs'"
    by (cases "spec_strings categories") (auto split: pyval.splits)
  from 8 9 10 have 11: "format_value E title = t \<and> as' = as \<and> d' = d \<and> cs' = cs"
    by (cases title) auto
  show ?thesis
    using 1 2 3 4 5 6 7 9 10 11 by (simp add: dict_item_def)
qed

lemma render_book_spec:
  assumes "spec_book_text book = Some f"
  shows "render_book E book = Inr (spec_block_lines f @ ''\<newline>'')"
proof -
  obtain t as d cs where f: "f = (t, as, d, cs)"
    by (cases f) auto
  from spec_book_text_fields [OF assms [unfolded f], of E]
  obtain title authors categories where
    "dict_item book ''title'' = Inr title" "format_value E title = t"
    "dict_item book ''authors'' = Inr (PList authors)" "spec_strings authors = Some as"
    "dict_item book ''description'' = Inr (PStr d)"
    "dict_item book ''categories'' = Inr (PList categories)"
    "spec_strings categories = Some cs"
    by blast
  then show ?thesis
    by (simp add: render_book_def py_join_spec f spec_block_lines_def)
qed

lemma render_books_spec:
  "map spec_book_text books = map Some texts \<Longrightarrow>
   render_books E books = Inr (map (\<lambda>f. spec_block_lines f @ ''\<newline>'') texts)"
proof (induction books arbitrary: texts)
  case Nil
  then show ?case by simp
next
  case (Cons book books)
  then obtain f fs where "texts = f # fs" "spec_book_text book = Some f"
    "map spec_book_text books = map Some fs"
    by (cases texts) auto
  with Cons.IH [of fs] show ?case
    by (simp add: render_book_spec)
qed





text \<open>
  Claim C7. The prompt is a function of the books and the question alone. In two runs
  on the same books and the same question, whatever the two services answer, whatever
  has been logged or called before, and whichever assistant object is used, the prompt
  is the same, and it is what each run passes to the generation service (nothing is
  passed when building the prompt fails). For records of the data model the prompt is
  the fixed template around the blocks in the order of the books, each block the four
  lines \<open>Book\<close>, \<open>Authors\<close>, \<open>Description\<close>, \<open>Categories\<close> with authors and categories joined
  by a comma and a space.
\<close>

theorem prompt_deterministic:
  assumes "py_str E1 = py_str E2"
  shows "build_prompt E1 books question = build_prompt E2 books question
    \<and> generate_calls (snd (analyze_books E1 self1 books question w1)) =
        generate_calls w1 @
          (case build_prompt E1 books question of Inl e \<Rightarrow> [] | Inr prompt \<Rightarrow> [prompt])
    \<and> generate_calls (snd (analyze_books E2 self2 books question w2)) =
        generate_calls w2 @
          (case build_prompt E1 books question of Inl e \<Rightarrow> [] | Inr prompt \<Rightarrow> [prompt])
    \<and> (map spec_book_text books = map Some texts \<longrightarrow>
        build_prompt E1 books question =
          Inr (prompt_template
                 (join_strs ''\<newline>'' (map (\<lambda>f. spec_block_lines f @ ''\<newline>'') texts))
                 question))"
proof (intro conjI impI)
  show eq: "build_prompt E1 books question = build_prompt E2 books question"
    by (rule build_prompt_env [OF assms])
  show "generate_calls (snd (analyze_books E1 self1 books question w1)) =
        generate_calls w1 @
          (case build_prompt E1 books question of Inl e \<Rightarrow> [] | Inr prompt \<Rightarrow> [prompt])"
    by (rule analyze_books_generate_calls)
  show "generate_calls (snd (analyze_books E2 self2 books question w2)) =
        generate_calls w2 @
          (case build_prompt E1 books question of Inl e \<Rightarrow> [] | Inr prompt \<Rightarrow> [prompt])"
    unfolding eq by (rule analyze_books_generate_calls)
next
  assume "map spec_book_text books = map Some texts"
  then show "build_prompt E1 books question =
          Inr (prompt_template
                 (join_strs ''\<newline>'' (map (\<lambda>f. spec_block_lines f @ ''\<newline>'') texts))
                 question)"
    by (simp add: build_prompt_def build_context_def render_books_spec)
qed

text \<open>The theorem at two books, a service that answers and one that fails: the same
  prompt reaches both.\<close>

theorem prompt_deterministic_witness:
  "generate_calls (snd (analyze_books shelf_env example_assistant [dune_book, emma_book]
       ''Which one?'' new_world)) = [''Based on the following books information:\<newline>\<newline>Book: Dune\<newline>Authors: Frank Herbert\<newline>Description: A desert planet.\<newline>Categories: Fiction, Science fiction\<newline>\<newline>Book: Emma\<newline>Authors: Jane Austen\<newline>Description: \<newline>Categories: \<newline>\<newline>\<newline>Question: Which one?\<newline>\<newline>Please provide a detailed analysis of these books in relation to the question. Include relevant comparisons, themes, and insights.'']
   \<and> generate_calls (snd (analyze_books offline_env (init ''k1'' ''k2'') [dune_book, emma_book]
       ''Which one?'' (new_world\<lparr>generate_calls := [''earlier'']\<rparr>))) = [''earlier'', ''Based on the following books information:\<newline>\<newline>Book: Dune\<newline>Authors: Frank Herbert\<newline>Description: A desert planet.\<newline>Categories: Fiction, Science fiction\<newline>\<newline>Book: Emma\<newline>Authors: Jane Austen\<newline>Description: \<newline>Categories: \<newline>\<newline>\<newline>Question: Which one?\<newline>\<newline>Please provide a detailed analysis of these books in relation to the question. Include relevant comparisons, themes, and insights.'']"
proof -
  have h: "py_str shelf_env = py_str offline_env"
    by (simp add: shelf_env_def offline_env_def)
  have t: "map spec_book_text [dune_book, emma_book] = map Some [(''Dune'', [''Frank Herbert''], ''A desert planet.'', [''Fiction'', ''Science fiction'']), (''Emma'', [''Jane Austen''], [], [])]"
    by (simp add: spec_book_text_def dune_book_def emma_book_def)
  note th = prompt_deterministic [OF h, of "[dune_book, emma_book]" "''Which one?''"
      example_assistant new_world "init ''k1'' ''k2''"
      "new_world\<lparr>generate_calls := [''earlier'']\<rparr>" "[(''Dune'', [''Frank Herbert''], ''A desert planet.'', [''Fiction'', ''Science fiction'']), (''Emma'', [''Jane Austen''], [], [])]"]
  from th t have p: "build_prompt shelf_env [dune_book, emma_book] ''Which one?'' =
      Inr (prompt_template
             (join_strs ''\<newline>'' (map (\<lambda>f. spec_block_lines f @ ''\<newline>'') [(''Dune'', [''Frank Herbert''], ''A desert planet.'', [''Fiction'', ''Science fiction'']), (''Emma'', [''Jane Austen''], [], [])]))
             ''Which one?'')"
    by blast
  have v: "prompt_template
             (join_strs ''\<newline>'' (map (\<lambda>f. spec_block_lines f @ ''\<newline>'') [(''Dune'', [''Frank Herbert''], ''A desert planet.'', [''Fiction'', ''Science fiction'']), (''Emma'', [''Jane Austen''], [], [])]))
             ''Which one?'' = ''Based on the following books information:\<newline>\<newline>Book: Dune\<newline>Authors: Frank Herbert\<newline>Description: A desert planet.\<newline>Categories: Fiction, Science fiction\<newline>\<newline>Book: Emma\<newline>Authors: Jane Austen\<newline>Description: \<newline>Categories: \<newline>\<newline>\<newline>Question: Which one?\<newline>\<newline>Please provide a detailed analysis of these books in relation to the question. Include relevant comparisons, themes, and insights.''"
    by (simp add: prompt_template_def spec_block_lines_def)
  have pv: "build_prompt shelf_env [dune_book, emma_book] ''Which one?'' = Inr ''Based on the following books information:\<newline>\<newline>Book: Dune\<newline>Authors: Frank Herbert\<newline>Description: A desert planet.\<newline>Categories: Fiction, Science fiction\<newline>\<newline>Book: Emma\<newline>Authors: Jane Austen\<newline>Description: \<newline>Categories: \<newline>\<newline>\<newline>Question: Which one?\<newline>\<newline>Please provide a detailed analysis of these books in relation to the question. Include relevant comparisons, themes, and insights.''"
    using p v by (simp only:)
  from th have "generate_calls (snd (analyze_books shelf_env example_assistant
        [dune_book, emma_book] ''Which one?'' new_world)) =
      generate_calls new_world @
        (case build_prompt shelf_env [dune_book, emma_book] ''Which one?'' of
           Inl e \<Rightarrow> [] | Inr prompt \<Rightarrow> [prompt])"
    by blast
  then have a: "generate_calls (snd (analyze_books shelf_env example_assistant
        [dune_book, emma_book] ''Which one?'' new_world)) = [''Based on the following books information:\<newline>\<newline>Book: Dune\<newline>Authors: Frank Herbert\<newline>Description: A desert planet.\<newline>Categories: Fiction, Science fiction\<newline>\<newline>Book: Emma\<newline>Authors: Jane Austen\<newline>Description: \<newline>Categories: \<newline>\<newline>\<newline>Question: Which one?\<newline>\<newline>Please provide a detailed analysis of these books in relation to the question. Include relevant comparisons, themes, and insights.'']"
    by (simp add: pv new_world_def)
  from th have "generate_calls (snd (analyze_books offline_env (init ''k1'' ''k2'')
        [dune_book, emma_book] ''Which one?'' (new_world\<lparr>generate_calls := [''earlier'']\<rparr>))) =
      generate_calls (new_world\<lparr>generate_calls := [''earlier'']\<rparr>) @
        (case build_prompt shelf_env [dune_book, emma_book] ''Which one?'' of
           Inl e \<Rightarrow> [] | Inr prompt \<Rightarrow> [prompt])"
    by blast
  then have b: "generate_calls (snd (analyze_books offline_env (init ''k1'' ''k2'')
        [dune_book, emma_book] ''Which one?'' (new_world\<lparr>generate_calls := [''earlier'']\<rparr>))) =
      [''earlier'', ''Based on the following books information:\<newline>\<newline>Book: Dune\<newline>Authors: Frank Herbert\<newline>Description: A desert planet.\<newline>Categories: Fiction, Science fiction\<newline>\<newline>Book: Emma\<newline>Authors: Jane Austen\<newline>Description: \<newline>Categories: \<newline>\<newline>\<newline>Question: Which one?\<newline>\<newline>Please provide a detailed analysis of these books in relation to the question. Include relevant comparisons, themes, and insights.'']"
    by (simp add: pv new_world_def)
  from a b show ?thesis by (rule conjI)
qed



section \<open>Properties of \<open>recommend_similar_books\<close>\<close>

lemmas search_eval_defs =
  search_books_def search_try_def books_of_response_def raise_for_status_def book_of_item_def
  dict_get_def shelf_env_def shelf_get_def example_assistant_def init_def ok_response_def
  items_body_def volume_def untitled_volume_def volume_record_def untitled_record_def
  world_after_def new_world_def

lemma shelf_search_dune:
  "search_books shelf_env example_assistant ''Dune'' 1 new_world =
     (Inr [volume_record ''Dune'' [''Fiction'']], world_after [(''Dune'', 1)])"
  by (simp add: search_eval_defs)

lemma shelf_search_fiction:
  "search_books shelf_env example_assistant ''subject:Fiction'' 3 (world_after [(''Dune'', 1)]) =
     (Inr [volume_record ''Dune'' [''Fiction''], volume_record ''Dune Messiah'' [''Fiction''],
           untitled_record],
      world_after [(''Dune'', 1), (''subject:Fiction'', 3)])"
  by (simp add: search_eval_defs)

lemma category_step_filter:
  assumes "search_books E self (''subject:'' @ format_value E category) m w = (Inr books, w1)"
  shows "category_step E self book_title m similar_books category w =
           (Inr (similar_books @
                 filter (\<lambda>b. map_of b ''title'' \<noteq> Some (PStr book_title)) books), w1)"
proof -
  have "list_all (\<lambda>b. map fst b = book_keys) books"
    by (rule search_books_keys [OF assms])
  then have "list_all (\<lambda>b. map_of b ''title'' \<noteq> None) books"
    by (induction books) (auto dest: keys_title)
  then have "filter_books book_title books =
      Inr (filter (\<lambda>b. map_of b ''title'' \<noteq> Some (PStr book_title)) books)"
    by (rule filter_books_titled)
  then show ?thesis
    unfolding category_step_def assms by simp
qed

lemma recommend_books_of_try:
  "recommend_try E self book_title m w = (Inr books, w1) \<Longrightarrow>
   recommend_similar_books E self book_title m w = (Inr books, w1)"
  by (simp add: recommend_similar_books_def)

lemma py_slice_to_Nil: "py_slice_to [] m = []"
  by (simp add: py_slice_to_def)

lemma search_books_http_calls:
  "search_books E self query n w = (r, w1) \<Longrightarrow>
   http_calls w1 = http_calls w @
     [(google_books_base_url self,
       \<lparr>param_q = query, param_key = google_books_api_key self, param_maxResults = n\<rparr>)]"
  by (auto simp: search_books_def search_try_def Let_def log_error_def
      split: sum.splits if_splits)


lemma filter_books_no_title:
  "filter_books book_title books = Inr kept \<Longrightarrow>
   list_all (\<lambda>b. map_of b ''title'' \<noteq> Some (PStr book_title)) kept"
proof (induction books arbitrary: kept)
  case Nil
  then show ?case by simp
next
  case (Cons book books)
  then show ?case
    by (auto simp: dict_item_def py_ne_str_iff split: option.splits sum.splits if_splits)
qed

lemma category_step_no_title:
  assumes "category_step E self book_title m similar_books category w = (Inr result, w1)"
    and "list_all (\<lambda>b. map_of b ''title'' \<noteq> Some (PStr book_title)) similar_books"
  shows "list_all (\<lambda>b. map_of b ''title'' \<noteq> Some (PStr book_title)) result"
  using assms
  by (auto simp: category_step_def split: prod.splits sum.splits dest: filter_books_no_title)

lemma category_loop_no_title:
  "category_loop E self book_title m categories similar_books w = (Inr result, w1) \<Longrightarrow>
   list_all (\<lambda>b. map_of b ''title'' \<noteq> Some (PStr book_title)) similar_books \<Longrightarrow>
   list_all (\<lambda>b. map_of b ''title'' \<noteq> Some (PStr book_title)) result"
proof (induction categories arbitrary: similar_books w)
  case Nil
  then show ?case by simp
next
  case (Cons category categories)
  from Cons.prems(1) obtain similar_books1 w2
    where s: "category_step E self book_title m similar_books category w = (Inr similar_books1, w2)"
      and l: "category_loop E self book_title m categories similar_books1 w2 = (Inr result, w1)"
    by (auto split: prod.splits sum.splits)
  from category_step_no_title [OF s Cons.prems(2)]
  show ?case by (rule Cons.IH [OF l])
qed

lemma list_all_take: "list_all P xs \<Longrightarrow> list_all P (take n xs)"
  by (auto simp: list_all_iff dest: in_set_takeD)

lemma recommend_no_title:
  assumes "recommend_similar_books E self book_title m w = (Inr result, w1)"
  shows "list_all (\<lambda>b. map_of b ''title'' \<noteq> Some (PStr book_title)) result"
proof (cases "recommend_try E self book_title m w")
  case (Pair r w2)
  show ?thesis
  proof (cases r)
    case (Inl e)
    with Pair assms show ?thesis
      by (simp add: recommend_similar_books_def)
  next
    case (Inr books)
    with Pair assms have res: "result = books"
      by (simp add: recommend_similar_books_def)
    from Pair Inr have "recommend_try E self book_title m w = (Inr books, w2)"
      by simp
    then have "list_all (\<lambda>b. map_of b ''title'' \<noteq> Some (PStr book_title)) books"
      by (auto simp: recommend_try_def py_slice_to_def
          split: prod.splits sum.splits list.splits
          dest!: category_loop_no_title intro: list_all_take)
    with res show ?thesis by simp
  qed
qed

lemma category_loop_searches:
  "spec_category_searches E self m categories w = (Inr hitss, w1) \<Longrightarrow>
   category_loop E self book_title m categories similar_books w =
     (Inr (similar_books @
           filter (\<lambda>b. map_of b ''title'' \<noteq> Some (PStr book_title)) (concat hitss)), w1)"
proof (induction categories arbitrary: w hitss similar_books)
  case Nil
  then show ?case by simp
next
  case (Cons category categories)
  from Cons.prems obtain hits rest w2
    where s: "search_books E self (''subject:'' @ format_value E category) m w = (Inr hits, w2)"
      and r: "spec_category_searches E self m categories w2 = (Inr rest, w1)"
      and h: "hitss = hits # rest"
    by (auto split: prod.splits sum.splits)
  have "category_loop E self book_title m (category # categories) similar_books w =
        category_loop E self book_title m categories
          (similar_books @ filter (\<lambda>b. map_of b ''title'' \<noteq> Some (PStr book_title)) hits) w2"
    by (simp add: category_step_filter [OF s])
  also have "\<dots> = (Inr ((similar_books @
        filter (\<lambda>b. map_of b ''title'' \<noteq> Some (PStr book_title)) hits) @
        filter (\<lambda>b. map_of b ''title'' \<noteq> Some (PStr book_title)) (concat rest)), w1)"
    by (rule Cons.IH [OF r])
  finally show ?case
    by (simp add: h)
qed

lemma recommend_filtered_slice:
  assumes "search_books E self book_title 1 w0 = (Inr (reference # others), w3)"
    and "py_iter (dict_get reference ''categories'' (PList [])) = Inr categories"
    and "spec_category_searches E self m categories w3 = (Inr hitss, w4)"
  shows "recommend_similar_books E self book_title m w0 =
           (Inr (py_slice_to
                  (filter (\<lambda>b. map_of b ''title'' \<noteq> Some (PStr book_title)) (concat hitss)) m),
            w4)"
proof -
  have "category_loop E self book_title m categories [] w3 =
      (Inr ([] @ filter (\<lambda>b. map_of b ''title'' \<noteq> Some (PStr book_title)) (concat hitss)), w4)"
    by (rule category_loop_searches [OF assms(3)])
  then have "recommend_try E self book_title m w0 =
           (Inr (py_slice_to
                  (filter (\<lambda>b. map_of b ''title'' \<noteq> Some (PStr book_title)) (concat hitss)) m),
            w4)"
    by (simp add: recommend_try_def assms(1) assms(2))
  then show ?thesis
    by (rule recommend_books_of_try)
qed

lemma shelf_search_dune_lower:
  "search_books shelf_env example_assistant ''dune'' 1 new_world =
     (Inr [volume_record ''Dune'' [''Fiction'']], world_after [(''dune'', 1)])"
  by (simp add: search_eval_defs)

lemma shelf_search_fiction_lower:
  "search_books shelf_env example_assistant ''subject:Fiction'' 3 (world_after [(''dune'', 1)]) =
     (Inr [volume_record ''Dune'' [''Fiction''], volume_record ''Dune Messiah'' [''Fiction''],
           untitled_record],
      world_after [(''dune'', 1), (''subject:Fiction'', 3)])"
  by (simp add: search_eval_defs)


text \<open>
  Claim C1. In every turn of the loop of \<open>recommend_similar_books\<close>, the records of the
  category's search that stay are those whose title is not the string \<open>book_title\<close>, the
  argument of the call, compared as it is: a record leaves if and only if its title is
  that very string. The reference record that the first search resolved plays no part
  in the comparison. So when the first search finds a reference record and the search of
  each of its categories returns, \<open>recommend_similar_books\<close> returns the slice
  \<open>[:max_recommendations]\<close> of all the records found, in the order of the categories, less
  exactly those whose title is \<open>book_title\<close>: a record whose title differs in any character
  is kept, and no record that is returned has the title \<open>book_title\<close>.
\<close>

theorem recommend_filters_exact_title:
  "(search_books E self (''subject:'' @ format_value E category) m w = (Inr books, w1) \<longrightarrow>
      category_step E self book_title m similar_books category w =
        (Inr (similar_books @
              filter (\<lambda>b. map_of b ''title'' \<noteq> Some (PStr book_title)) books), w1))
   \<and> (recommend_similar_books E self book_title m w0 = (Inr result, w2) \<longrightarrow>
        list_all (\<lambda>b. map_of b ''title'' \<noteq> Some (PStr book_title)) result)
   \<and> (search_books E self book_title 1 w0 = (Inr (reference # others), w3) \<and>
       py_iter (dict_get reference ''categories'' (PList [])) = Inr categories \<and>
       spec_category_searches E self m categories w3 = (Inr hitss, w4) \<longrightarrow>
        recommend_similar_books E self book_title m w0 =
          (Inr (py_slice_to
                 (filter (\<lambda>b. map_of b ''title'' \<noteq> Some (PStr book_title)) (concat hitss)) m),
           w4))"
  using category_step_filter [of E self category m w books w1 book_title similar_books]
    recommend_no_title [of E self book_title m w0 result w2]
    recommend_filtered_slice [of E self book_title w0 reference others w3 categories m hitss w4]
  by blast

text \<open>The theorem at the category \<open>Fiction\<close> of the example service, whose search finds
  \<open>Dune\<close>, \<open>Dune Messiah\<close> and a record without a title. For the argument \<open>Dune\<close> the
  record \<open>Dune\<close> leaves and the other two are returned. For the argument \<open>dune\<close> the first
  search resolves the same reference record, titled \<open>Dune\<close>, and all three are returned:
  the record \<open>Dune\<close> stays, since its title is not the argument.\<close>

theorem recommend_filters_exact_title_witness:
  "category_step shelf_env example_assistant ''Dune'' 3 [] (PStr ''Fiction'')
     (world_after [(''Dune'', 1)]) =
     (Inr [volume_record ''Dune Messiah'' [''Fiction''], untitled_record],
      world_after [(''Dune'', 1), (''subject:Fiction'', 3)])
   \<and> recommend_similar_books shelf_env example_assistant ''Dune'' 3 new_world =
     (Inr [volume_record ''Dune Messiah'' [''Fiction''], untitled_record],
      world_after [(''Dune'', 1), (''subject:Fiction'', 3)])
   \<and> recommend_similar_books shelf_env example_assistant ''dune'' 3 new_world =
     (Inr [volume_record ''Dune'' [''Fiction''], volume_record ''Dune Messiah'' [''Fiction''],
           untitled_record],
      world_after [(''dune'', 1), (''subject:Fiction'', 3)])"
proof (intro conjI)
  have h: "search_books shelf_env example_assistant
             (''subject:'' @ format_value shelf_env (PStr ''Fiction'')) 3
             (world_after [(''Dune'', 1)]) =
           (Inr [volume_record ''Dune'' [''Fiction''], volume_record ''Dune Messiah'' [''Fiction''],
                 untitled_record],
            world_after [(''Dune'', 1), (''subject:Fiction'', 3)])"
    using shelf_search_fiction by simp
  from recommend_filters_exact_title
    [of shelf_env example_assistant "PStr ''Fiction''" 3 "world_after [(''Dune'', 1)]"
      "[volume_record ''Dune'' [''Fiction''], volume_record ''Dune Messiah'' [''Fiction''],
        untitled_record]"
      "world_after [(''Dune'', 1), (''subject:Fiction'', 3)]" "''Dune''" "[]"] h
  have "category_step shelf_env example_assistant ''Dune'' 3 [] (PStr ''Fiction'')
          (world_after [(''Dune'', 1)]) =
        (Inr ([] @ filter (\<lambda>b. map_of b ''title'' \<noteq> Some (PStr ''Dune''))
                [volume_record ''Dune'' [''Fiction''],
                 volume_record ''Dune Messiah'' [''Fiction''], untitled_record]),
         world_after [(''Dune'', 1), (''subject:Fiction'', 3)])"
    by blast
  moreover have "filter (\<lambda>b. map_of b ''title'' \<noteq> Some (PStr ''Dune''))
                [volume_record ''Dune'' [''Fiction''],
                 volume_record ''Dune Messiah'' [''Fiction''], untitled_record] =
        [volume_record ''Dune Messiah'' [''Fiction''], untitled_record]"
    by (simp add: volume_record_def untitled_record_def)
  ultimately show "category_step shelf_env example_assistant ''Dune'' 3 [] (PStr ''Fiction'')
     (world_after [(''Dune'', 1)]) =
     (Inr [volume_record ''Dune Messiah'' [''Fiction''], untitled_record],
      world_after [(''Dune'', 1), (''subject:Fiction'', 3)])"
    by simp
next
  have c: "py_iter (dict_get (volume_record ''Dune'' [''Fiction'']) ''categories'' (PList [])) =
        Inr [PStr ''Fiction'']"
    by (simp add: dict_get_def volume_record_def)
  have s: "spec_category_searches shelf_env example_assistant 3 [PStr ''Fiction'']
             (world_after [(''Dune'', 1)]) =
           (Inr [[volume_record ''Dune'' [''Fiction''],
                  volume_record ''Dune Messiah'' [''Fiction''], untitled_record]],
            world_after [(''Dune'', 1), (''subject:Fiction'', 3)])"
    using shelf_search_fiction by simp
  from recommend_filters_exact_title
    [of shelf_env example_assistant _ 3 _ _ _ "''Dune''" _ new_world _ _
      "volume_record ''Dune'' [''Fiction'']" "[]" "world_after [(''Dune'', 1)]"
      "[PStr ''Fiction'']"
      "[[volume_record ''Dune'' [''Fiction''],
         volume_record ''Dune Messiah'' [''Fiction''], untitled_record]]"
      "world_after [(''Dune'', 1), (''subject:Fiction'', 3)]"]
    shelf_search_dune c s
  have "recommend_similar_books shelf_env example_assistant ''Dune'' 3 new_world =
          (Inr (py_slice_to
                 (filter (\<lambda>b. map_of b ''title'' \<noteq> Some (PStr ''Dune''))
                    (concat [[volume_record ''Dune'' [''Fiction''],
                       volume_record ''Dune Messiah'' [''Fiction''], untitled_record]])) 3),
           world_after [(''Dune'', 1), (''subject:Fiction'', 3)])"
    by blast
  moreover have "py_slice_to
                 (filter (\<lambda>b. map_of b ''title'' \<noteq> Some (PStr ''Dune''))
                    (concat [[volume_record ''Dune'' [''Fiction''],
                       volume_record ''Dune Messiah'' [''Fiction''], untitled_record]])) 3 =
        [volume_record ''Dune Messiah'' [''Fiction''], untitled_record]"
    by (simp add: volume_record_def untitled_record_def py_slice_to_def)
  ultimately show "recommend_similar_books shelf_env example_assistant ''Dune'' 3 new_world =
     (Inr [volume_record ''Dune Messiah'' [''Fiction''], untitled_record],
      world_after [(''Dune'', 1), (''subject:Fiction'', 3)])"
    by (simp only:)
next
  have c: "py_iter (dict_get (volume_record ''Dune'' [''Fiction'']) ''categories'' (PList [])) =
        Inr [PStr ''Fiction'']"
    by (simp add: dict_get_def volume_record_def)
  have s: "spec_category_searches shelf_env example_assistant 3 [PStr ''Fiction'']
             (world_after [(''dune'', 1)]) =
           (Inr [[volume_record ''Dune'' [''Fiction''],
                  volume_record ''Dune Messiah'' [''Fiction''], untitled_record]],
            world_after [(''dune'', 1), (''subject:Fiction'', 3)])"
    using shelf_search_fiction_lower by simp
  from recommend_filters_exact_title
    [of shelf_env example_assistant _ 3 _ _ _ "''dune''" _ new_world _ _
      "volume_record ''Dune'' [''Fiction'']" "[]" "world_after [(''dune'', 1)]"
      "[PStr ''Fiction'']"
      "[[volume_record ''Dune'' [''Fiction''],
         volume_record ''Dune Messiah'' [''Fiction''], untitled_record]]"
      "world_after [(''dune'', 1), (''subject:Fiction'', 3)]"]
    shelf_search_dune_lower c s
  have "recommend_similar_books shelf_env example_assistant ''dune'' 3 new_world =
          (Inr (py_slice_to
                 (filter (\<lambda>b. map_of b ''title'' \<noteq> Some (PStr ''dune''))
                    (concat [[volume_record ''Dune'' [''Fiction''],
                       volume_record ''Dune Messiah'' [''Fiction''], untitled_record]])) 3),
           world_after [(''dune'', 1), (''subject:Fiction'', 3)])"
    by blast
  moreover have "py_slice_to
                 (filter (\<lambda>b. map_of b ''title'' \<noteq> Some (PStr ''dune''))
                    (concat [[volume_record ''Dune'' [''Fiction''],
                       volume_record ''Dune Messiah'' [''Fiction''], untitled_record]])) 3 =
        [volume_record ''Dune'' [''Fiction''], volume_record ''Dune Messiah'' [''Fiction''],
         untitled_record]"
    by (simp add: volume_record_def untitled_record_def py_slice_to_def)
  ultimately show "recommend_similar_books shelf_env example_assistant ''dune'' 3 new_world =
     (Inr [volume_record ''Dune'' [''Fiction''], volume_record ''Dune Messiah'' [''Fiction''],
           untitled_record],
      world_after [(''dune'', 1), (''subject:Fiction'', 3)])"
    by (simp only:)
qed

lemma recommend_two_categories:
  assumes "search_books E self book_title 1 w0 = (Inr (reference # others), w1)"
    and "dict_get reference ''categories'' (PList []) = PList [c1, c2]"
    and "search_books E self (''subject:'' @ format_value E c1) m w1 = (Inr hits1, w2)"
    and "search_books E self (''subject:'' @ format_value E c2) m w2 = (Inr hits2, w3)"
    and "list_all (\<lambda>b. map_of b ''title'' \<noteq> Some (PStr book_title)) (hits1 @ hits2)"
  shows "recommend_similar_books E self book_title m w0 =
           (Inr (py_slice_to (hits1 @ hits2) m), w3)"
proof -
  have f1: "filter (\<lambda>b. map_of b ''title'' \<noteq> Some (PStr book_title)) hits1 = hits1"
    using assms(5) by (simp add: list_all_iff)
  have f2: "filter (\<lambda>b. map_of b ''title'' \<noteq> Some (PStr book_title)) hits2 = hits2"
    using assms(5) by (simp add: list_all_iff)
  have s1: "category_step E self book_title m [] c1 w1 = (Inr hits1, w2)"
    using category_step_filter [OF assms(3), of book_title "[]"] by (simp add: f1)
  have s2: "category_step E self book_title m hits1 c2 w2 = (Inr (hits1 @ hits2), w3)"
    using category_step_filter [OF assms(4), of book_title hits1] by (simp add: f2)
  have "category_loop E self book_title m [c1, c2] [] w1 = (Inr (hits1 @ hits2), w3)"
    by (simp add: s1 s2)
  then have "recommend_try E self book_title m w0 = (Inr (py_slice_to (hits1 @ hits2) m), w3)"
    by (simp add: recommend_try_def assms(1) assms(2))
  then show ?thesis
    by (rule recommend_books_of_try)
qed

text \<open>
  Claim C2. \<open>recommend_similar_books\<close> appends the records of the categories in the order
  of the categories and cuts the list only at the end. When the reference record has two
  categories, each search finds three records and none has the title \<open>book_title\<close>, the
  result is the slice \<open>[:max_recommendations]\<close> of the six records, first category first.
  With \<open>max_recommendations = 3\<close> it is exactly the three records of the first category,
  in their order; with 6 or more it is all six, a title that both categories found
  appearing twice.
\<close>

theorem recommend_accumulates_then_truncates:
  assumes "search_books E self book_title 1 w0 = (Inr (reference # others), w1)"
    and "dict_get reference ''categories'' (PList []) = PList [c1, c2]"
    and "search_books E self (''subject:'' @ format_value E c1) m w1 = (Inr hits1, w2)"
    and "search_books E self (''subject:'' @ format_value E c2) m w2 = (Inr hits2, w3)"
    and "length hits1 = 3" and "length hits2 = 3"
    and "list_all (\<lambda>b. map_of b ''title'' \<noteq> Some (PStr book_title)) (hits1 @ hits2)"
  shows "recommend_similar_books E self book_title m w0 =
           (Inr (py_slice_to (hits1 @ hits2) m), w3)
         \<and> (m = 3 \<longrightarrow> py_slice_to (hits1 @ hits2) m = hits1)
         \<and> (6 \<le> m \<longrightarrow> py_slice_to (hits1 @ hits2) m = hits1 @ hits2)"
proof (intro conjI impI)
  show "recommend_similar_books E self book_title m w0 =
          (Inr (py_slice_to (hits1 @ hits2) m), w3)"
    by (rule recommend_two_categories [OF assms(1) assms(2) assms(3) assms(4) assms(7)])
next
  assume "m = 3"
  then show "py_slice_to (hits1 @ hits2) m = hits1"
    using assms(5) by (simp add: py_slice_to_def)
next
  assume "6 \<le> m"
  then show "py_slice_to (hits1 @ hits2) m = hits1 @ hits2"
    using assms(5) assms(6) by (simp add: py_slice_to_def)
qed

lemma shelf_search_foundation:
  "search_books shelf_env example_assistant ''Foundation'' 1 new_world =
     (Inr [volume_record ''Foundation'' [''Robots'', ''Empire'']], world_after [(''Foundation'', 1)])"
  by (simp add: search_eval_defs)

lemma shelf_search_robots:
  "search_books shelf_env example_assistant ''subject:Robots'' 3 (world_after [(''Foundation'', 1)]) =
     (Inr [volume_record ''I, Robot'' [''Robots''], volume_record ''The Caves of Steel'' [''Robots''],
           volume_record ''The Naked Sun'' [''Robots'']],
      world_after [(''Foundation'', 1), (''subject:Robots'', 3)])"
  by (simp add: search_eval_defs)

lemma shelf_search_empire:
  "search_books shelf_env example_assistant ''subject:Empire'' 3
     (world_after [(''Foundation'', 1), (''subject:Robots'', 3)]) =
     (Inr [volume_record ''I, Robot'' [''Empire''], volume_record ''Foundation and Empire'' [''Empire''],
           volume_record ''Second Foundation'' [''Empire'']],
      world_after [(''Foundation'', 1), (''subject:Robots'', 3), (''subject:Empire'', 3)])"
  by (simp add: search_eval_defs)

text \<open>The theorem at the reference title \<open>Foundation\<close>, whose two categories have three
  records each: the three of \<open>Robots\<close> are returned, none of \<open>Empire\<close>.\<close>

theorem recommend_accumulates_then_truncates_witness:
  "recommend_similar_books shelf_env example_assistant ''Foundation'' 3 new_world =
     (Inr [volume_record ''I, Robot'' [''Robots''], volume_record ''The Caves of Steel'' [''Robots''],
           volume_record ''The Naked Sun'' [''Robots'']],
      world_after [(''Foundation'', 1), (''subject:Robots'', 3), (''subject:Empire'', 3)])"
proof -
  have h2: "dict_get (volume_record ''Foundation'' [''Robots'', ''Empire'']) ''categories'' (PList []) =
            PList [PStr ''Robots'', PStr ''Empire'']"
    by (simp add: dict_get_def volume_record_def)
  have h3: "search_books shelf_env example_assistant
              (''subject:'' @ format_value shelf_env (PStr ''Robots'')) 3
              (world_after [(''Foundation'', 1)]) =
     (Inr [volume_record ''I, Robot'' [''Robots''], volume_record ''The Caves of Steel'' [''Robots''],
           volume_record ''The Naked Sun'' [''Robots'']],
      world_after [(''Foundation'', 1), (''subject:Robots'', 3)])"
    using shelf_search_robots by simp
  have h4: "search_books shelf_env example_assistant
              (''subject:'' @ format_value shelf_env (PStr ''Empire'')) 3
              (world_after [(''Foundation'', 1), (''subject:Robots'', 3)]) =
     (Inr [volume_record ''I, Robot'' [''Empire''], volume_record ''Foundation and Empire'' [''Empire''],
           volume_record ''Second Foundation'' [''Empire'']],
      world_after [(''Foundation'', 1), (''subject:Robots'', 3), (''subject:Empire'', 3)])"
    using shelf_search_empire by simp
  have h5: "length [volume_record ''I, Robot'' [''Robots''],
              volume_record ''The Caves of Steel'' [''Robots''],
              volume_record ''The Naked Sun'' [''Robots'']] = 3"
    by simp
  have h6: "length [volume_record ''I, Robot'' [''Empire''],
              volume_record ''Foundation and Empire'' [''Empire''],
              volume_record ''Second Foundation'' [''Empire'']] = 3"
    by simp
  have h7: "list_all (\<lambda>b. map_of b ''title'' \<noteq> Some (PStr ''Foundation''))
              ([volume_record ''I, Robot'' [''Robots''],
                volume_record ''The Caves of Steel'' [''Robots''],
                volume_record ''The Naked Sun'' [''Robots'']] @
               [volume_record ''I, Robot'' [''Empire''],
                volume_record ''Foundation and Empire'' [''Empire''],
                volume_record ''Second Foundation'' [''Empire'']])"
    by (simp add: volume_record_def)
  note th = recommend_accumulates_then_truncates
    [OF shelf_search_foundation h2 h3 h4 h5 h6 h7]
  from th have a: "recommend_similar_books shelf_env example_assistant ''Foundation'' 3 new_world =
      (Inr (py_slice_to
             ([volume_record ''I, Robot'' [''Robots''],
               volume_record ''The Caves of Steel'' [''Robots''],
               volume_record ''The Naked Sun'' [''Robots'']] @
              [volume_record ''I, Robot'' [''Empire''],
               volume_record ''Foundation and Empire'' [''Empire''],
               volume_record ''Second Foundation'' [''Empire'']]) 3),
       world_after [(''Foundation'', 1), (''subject:Robots'', 3), (''subject:Empire'', 3)])"
    by (rule conjunct1)
  from th have b: "py_slice_to
             ([volume_record ''I, Robot'' [''Robots''],
               volume_record ''The Caves of Steel'' [''Robots''],
               volume_record ''The Naked Sun'' [''Robots'']] @
              [volume_record ''I, Robot'' [''Empire''],
               volume_record ''Foundation and Empire'' [''Empire''],
               volume_record ''Second Foundation'' [''Empire'']]) 3 =
             [volume_record ''I, Robot'' [''Robots''],
               volume_record ''The Caves of Steel'' [''Robots''],
               volume_record ''The Naked Sun'' [''Robots'']]"
    by blast
  from a show ?thesis unfolding b .
qed

lemma recommend_no_reference:
  assumes "search_books E self book_title 1 w = (Inr reference_book, w1)"
    and "reference_book = [] \<or>
         (\<exists>reference others. reference_book = reference # others \<and>
            py_iter (dict_get reference ''categories'' (PList [])) = Inr [])"
  shows "recommend_similar_books E self book_title m w = (Inr [], w1)"
proof -
  have "recommend_try E self book_title m w = (Inr [], w1)"
    using assms by (auto simp: recommend_try_def py_slice_to_Nil)
  then show ?thesis
    by (rule recommend_books_of_try)
qed

text \<open>
  Claim C6. When the first search, for \<open>book_title\<close> with \<open>max_results = 1\<close>, finds nothing,
  \<open>recommend_similar_books\<close> returns the empty list at once; when the reference record has
  no category, the loop has no turn and the result is empty as well. In both cases the
  world is the one the first search left: that one request and no other has been sent.
\<close>

theorem recommend_empty_without_reference_or_categories:
  assumes "search_books E self book_title 1 w = (Inr reference_book, w1)"
    and "reference_book = [] \<or>
         (\<exists>reference others. reference_book = reference # others \<and>
            py_iter (dict_get reference ''categories'' (PList [])) = Inr [])"
  shows "recommend_similar_books E self book_title m w = (Inr [], w1)
       \<and> http_calls w1 = http_calls w @
           [(google_books_base_url self,
             \<lparr>param_q = book_title, param_key = google_books_api_key self,
                param_maxResults = 1\<rparr>)]"
  using recommend_no_reference [OF assms] search_books_http_calls [OF assms(1)]
  by (rule conjI)

lemma shelf_search_unknown:
  "search_books shelf_env example_assistant ''zzzznonexistentbook123'' 1 new_world =
     (Inr [], world_after [(''zzzznonexistentbook123'', 1)])"
  by (simp add: search_eval_defs)

lemma shelf_search_untagged:
  "search_books shelf_env example_assistant ''Untagged'' 1 new_world =
     (Inr [volume_record ''Untagged'' []], world_after [(''Untagged'', 1)])"
  by (simp add: search_eval_defs)

text \<open>The theorem at a title the example service does not know, and at a book it knows
  without categories.\<close>

theorem recommend_empty_without_reference_or_categories_witness:
  "recommend_similar_books shelf_env example_assistant ''zzzznonexistentbook123'' 3 new_world =
     (Inr [], world_after [(''zzzznonexistentbook123'', 1)])
   \<and> recommend_similar_books shelf_env example_assistant ''Untagged'' 3 new_world =
     (Inr [], world_after [(''Untagged'', 1)])"
proof
  have "[] = [] \<or>
         (\<exists>reference others. [] = reference # others \<and>
            py_iter (dict_get reference ''categories'' (PList [])) = Inr [])"
    by simp
  from recommend_empty_without_reference_or_categories [OF shelf_search_unknown this, of 3]
  show "recommend_similar_books shelf_env example_assistant ''zzzznonexistentbook123'' 3
          new_world = (Inr [], world_after [(''zzzznonexistentbook123'', 1)])"
    by (rule conjunct1)
next
  have "[volume_record ''Untagged'' []] = [] \<or>
         (\<exists>reference others. [volume_record ''Untagged'' []] = reference # others \<and>
            py_iter (dict_get reference ''categories'' (PList [])) = Inr [])"
    by (simp add: dict_get_def volume_record_def)
  from recommend_empty_without_reference_or_categories [OF shelf_search_untagged this, of 3]
  show "recommend_similar_books shelf_env example_assistant ''Untagged'' 3 new_world =
          (Inr [], world_after [(''Untagged'', 1)])"
    by (rule conjunct1)
qed

lemma filter_books_keeps_untitled:
  "filter_books book_title books = Inr kept \<Longrightarrow> book \<in> set books \<Longrightarrow>
   map_of book ''title'' = Some PNone \<Longrightarrow> book \<in> set kept"
proof (induction books arbitrary: kept)
  case Nil
  then show ?case by simp
next
  case (Cons b books)
  then show ?case
    by (auto simp: dict_item_def split: option.splits sum.splits if_splits)
qed

lemma book_of_item_untitled:
  assumes "spec_volume_info item = Some vi" and "map_of vi ''title'' = None"
  shows "\<exists>book. book_of_item item = Inr book \<and> map_of book ''title'' = Some PNone"
proof -
  have "spec_field vi ''title'' PNone = PNone"
    using assms(2) by (simp add: dict_get_spec_field [symmetric] dict_get_def)
  then show ?thesis
    using book_of_item_shaped [OF assms(1)] by (simp add: spec_book_record_def)
qed

lemma shelf_recommend_dune:
  "recommend_similar_books shelf_env example_assistant ''Dune'' 3 new_world =
     (Inr [volume_record ''Dune Messiah'' [''Fiction''], untitled_record],
      world_after [(''Dune'', 1), (''subject:Fiction'', 3)])"
proof -
  have h: "search_books shelf_env example_assistant
             (''subject:'' @ format_value shelf_env (PStr ''Fiction'')) 3
             (world_after [(''Dune'', 1)]) =
           (Inr [volume_record ''Dune'' [''Fiction''], volume_record ''Dune Messiah'' [''Fiction''],
                 untitled_record],
            world_after [(''Dune'', 1), (''subject:Fiction'', 3)])"
    using shelf_search_fiction by simp
  have f: "filter (\<lambda>b. map_of b ''title'' \<noteq> Some (PStr ''Dune''))
                [volume_record ''Dune'' [''Fiction''],
                 volume_record ''Dune Messiah'' [''Fiction''], untitled_record] =
        [volume_record ''Dune Messiah'' [''Fiction''], untitled_record]"
    by (simp add: volume_record_def untitled_record_def)
  have s: "category_step shelf_env example_assistant ''Dune'' 3 [] (PStr ''Fiction'')
          (world_after [(''Dune'', 1)]) =
        (Inr [volume_record ''Dune Messiah'' [''Fiction''], untitled_record],
         world_after [(''Dune'', 1), (''subject:Fiction'', 3)])"
    using category_step_filter [OF h, of "''Dune''" "[]"] by (simp only: f append_Nil)
  have c: "dict_get (volume_record ''Dune'' [''Fiction'']) ''categories'' (PList []) =
        PList [PStr ''Fiction'']"
    by (simp add: dict_get_def volume_record_def)
  have "recommend_try shelf_env example_assistant ''Dune'' 3 new_world =
     (Inr [volume_record ''Dune Messiah'' [''Fiction''], untitled_record],
      world_after [(''Dune'', 1), (''subject:Fiction'', 3)])"
    by (simp add: recommend_try_def shelf_search_dune c s py_slice_to_def)
  then show ?thesis
    by (rule recommend_books_of_try)
qed

text \<open>
  Claim C10. A record whose title is \<open>None\<close>, which is what line 55 gives an item whose
  \<open>volumeInfo\<close> has no title, is unequal to every string, so the filter of line 144 never
  removes it, whatever \<open>book_title\<close> is. Hence there are answers of the service for which
  \<open>recommend_similar_books\<close> returns a record without a title.
\<close>

theorem recommend_keeps_untitled_records:
  "(spec_volume_info item = Some vi \<and> map_of vi ''title'' = None \<longrightarrow>
      (\<exists>book. book_of_item item = Inr book \<and> map_of book ''title'' = Some PNone))
   \<and> (filter_books book_title books = Inr kept \<and> book \<in> set books \<and>
       map_of book ''title'' = Some PNone \<longrightarrow> book \<in> set kept)
   \<and> (\<exists>E self title m w result w1.
        recommend_similar_books E self title m w = (Inr result, w1) \<and>
        (\<exists>b \<in> set result. map_of b ''title'' = Some PNone))"
proof (intro conjI impI)
  assume "spec_volume_info item = Some vi \<and> map_of vi ''title'' = None"
  then show "\<exists>book. book_of_item item = Inr book \<and> map_of book ''title'' = Some PNone"
    using book_of_item_untitled by blast
next
  assume "filter_books book_title books = Inr kept \<and> book \<in> set books \<and>
       map_of book ''title'' = Some PNone"
  then show "book \<in> set kept"
    using filter_books_keeps_untitled by blast
next
  have "\<exists>b \<in> set [volume_record ''Dune Messiah'' [''Fiction''], untitled_record].
          map_of b ''title'' = Some PNone"
    by (simp add: untitled_record_def)
  with shelf_recommend_dune
  show "\<exists>E self title m w result w1.
        recommend_similar_books E self title m w = (Inr result, w1) \<and>
        (\<exists>b \<in> set result. map_of b ''title'' = Some PNone)"
    by blast
qed

text \<open>The theorem at the record without a title among those of \<open>subject:Fiction\<close>, filtered
  for the title \<open>Dune\<close>.\<close>

theorem recommend_keeps_untitled_records_witness:
  "(\<exists>book. book_of_item untitled_volume = Inr book \<and> map_of book ''title'' = Some PNone)
   \<and> untitled_record \<in> set [volume_record ''Dune Messiah'' [''Fiction''], untitled_record]"
proof -
  have v: "spec_volume_info untitled_volume = Some [(''authors'', PList [PStr ''Anonymous''])]"
    by (simp add: spec_volume_info_def untitled_volume_def)
  have t: "map_of [(''authors'', PList [PStr ''Anonymous''])] ''title'' = None"
    by simp
  have a: "filter_books ''Dune''
             [volume_record ''Dune'' [''Fiction''], volume_record ''Dune Messiah'' [''Fiction''],
              untitled_record] =
           Inr [volume_record ''Dune Messiah'' [''Fiction''], untitled_record]"
    by (simp add: volume_record_def untitled_record_def dict_item_def)
  have b: "untitled_record \<in> set [volume_record ''Dune'' [''Fiction''],
             volume_record ''Dune Messiah'' [''Fiction''], untitled_record]"
    by simp
  have c: "map_of untitled_record ''title'' = Some PNone"
    by (simp add: untitled_record_def)
  from recommend_keeps_untitled_records
    [of untitled_volume "[(''authors'', PList [PStr ''Anonymous''])]" "''Dune''"
      "[volume_record ''Dune'' [''Fiction''], volume_record ''Dune Messiah'' [''Fiction''],
        untitled_record]"
      "[volume_record ''Dune Messiah'' [''Fiction''], untitled_record]" untitled_record]
    v t a b c
  show ?thesis by blast
qed

end
